theory Spec2Isabelle
  imports Main
begin

section \<open>Python values\<close>

text \<open>
  A Python 3 \<^verbatim>\<open>str\<close> is a sequence of Unicode code points: \<^verbatim>\<open>len\<close> counts code points and
  \<^verbatim>\<open>s[0]\<close> is the first code point. The generators' literals are mostly Chinese text, so a
  string is modelled as the list of its code points (\<^typ>\<open>char\<close> holds one byte only).
  A literal is written as its code points in decimal; runs of printable ASCII are written
  with \<open>ascii\<close> for readability.
\<close>

type_synonym pystr = "nat list"

definition ascii :: "string \<Rightarrow> pystr" where
  "ascii s = map of_char s"

text \<open>
  The values that the generators build and hand to \<^verbatim>\<open>json.dump\<close>: strings, integers, lists
  and dictionaries with string keys. A dictionary keeps its entries in insertion order.
\<close>

datatype pyval =
    PStr pystr
  | PInt int
  | PList "pyval list"
  | PDict "(pystr \<times> pyval) list"

datatype error = IndexError | OSError

text \<open>\<^verbatim>\<open>len(x)\<close> for a string or a list.\<close>

definition len :: "'a list \<Rightarrow> int" where
  "len xs = int (length xs)"

text \<open>\<^verbatim>\<open>s[i]\<close> on a string: a negative index counts from the end, an index out of range raises.\<close>

definition str_getitem :: "pystr \<Rightarrow> int \<Rightarrow> error + pystr" where
  "str_getitem s i =
     (let n = len s; j = (if i < 0 then n + i else i)
      in if 0 \<le> j \<and> j < n then Inr [s ! nat j] else Inl IndexError)"

text \<open>\<^verbatim>\<open>str(i)\<close> for an integer: its decimal digits, with a minus sign when negative.\<close>

fun digits :: "nat \<Rightarrow> pystr" where
  "digits n = (if n < 10 then [48 + n] else digits (n div 10) @ [48 + n mod 10])"

definition str_int :: "int \<Rightarrow> pystr" where
  "str_int i = (if i < 0 then 45 # digits (nat (- i)) else digits (nat i))"

text \<open>\<^verbatim>\<open>sub in s\<close> for strings.\<close>

fun startswith :: "pystr \<Rightarrow> pystr \<Rightarrow> bool" where
  "startswith s [] = True"
| "startswith [] (c # p) = False"
| "startswith (a # s) (c # p) = (a = c \<and> startswith s p)"

fun str_contains :: "pystr \<Rightarrow> pystr \<Rightarrow> bool" where
  "str_contains [] sub = startswith [] sub"
| "str_contains (a # s) sub = (startswith (a # s) sub \<or> str_contains s sub)"

subsection \<open>Dictionaries\<close>

text \<open>
  A dictionary is the list of its (key, value) entries in insertion order. Storing under a
  key that is present replaces the value and keeps the entry's position; a new key goes
  to the end. A dictionary literal stores its entries from left to right, so a repeated
  key would leave one entry only. \<^verbatim>\<open>d.items()\<close> iterates in insertion order.
\<close>

fun dict_set :: "('k \<times> 'v) list \<Rightarrow> 'k \<Rightarrow> 'v \<Rightarrow> ('k \<times> 'v) list" where
  "dict_set [] k v = [(k, v)]"
| "dict_set ((k', v') # d) k v =
     (if k' = k then (k', v) # d else (k', v') # dict_set d k v)"

fun dict_update :: "('k \<times> 'v) list \<Rightarrow> ('k \<times> 'v) list \<Rightarrow> ('k \<times> 'v) list" where
  "dict_update d [] = d"
| "dict_update d ((k, v) # kvs) = dict_update (dict_set d k v) kvs"

definition py_dict :: "('k \<times> 'v) list \<Rightarrow> ('k \<times> 'v) list" where
  "py_dict kvs = dict_update [] kvs"

definition items :: "('k \<times> 'v) list \<Rightarrow> ('k \<times> 'v) list" where
  "items d = d"

text \<open>\<^verbatim>\<open>d.get(k)\<close>: the value stored under a key, \<open>None\<close> when the key is absent.\<close>

fun dict_get :: "('k \<times> 'v) list \<Rightarrow> 'k \<Rightarrow> 'v option" where
  "dict_get [] k = None"
| "dict_get ((k', v) # d) k = (if k' = k then Some v else dict_get d k)"

text \<open>Reading a field of a record (a dictionary value); \<open>None\<close> when there is none.\<close>

fun field :: "pyval \<Rightarrow> pystr \<Rightarrow> pyval option" where
  "field (PDict d) k = dict_get d k"
| "field (PStr s) k = None"
| "field (PInt i) k = None"
| "field (PList xs) k = None"

subsection \<open>The file system and the console\<close>

text \<open>
  Each generator opens one file for writing, dumps one JSON document into it and prints.
  The world holds what these effects touch: for each path the document that the file at
  that path holds (\<^verbatim>\<open>json.dump\<close> with fixed options is a function of the document, so the
  file's text is determined by it), whether \<^verbatim>\<open>open(path, "w")\<close> succeeds there, and the
  lines printed so far.
\<close>

record world =
  files :: "pystr \<Rightarrow> pyval option"
  can_open :: "pystr \<Rightarrow> bool"
  stdout :: "pystr list"

text \<open>
  Opening the file at \<open>path\<close> for writing and dumping the document \<open>v\<close> into it
  (\<^verbatim>\<open>with open(path, "w", encoding="utf-8") as f\<close> and, in its body,
  \<^verbatim>\<open>json.dump(v, f, ensure_ascii=False, indent=2)\<close>): the file is replaced by the
  document, or \<^verbatim>\<open>open\<close> raises and nothing is written.
\<close>

definition json_dump_to :: "pystr \<Rightarrow> pyval \<Rightarrow> world \<Rightarrow> error + world" where
  "json_dump_to path v w =
     (if can_open w path then Inr (w\<lparr>files := (files w)(path \<mapsto> v)\<rparr>) else Inl OSError)"

definition print :: "pystr \<Rightarrow> world \<Rightarrow> world" where
  "print line w = w\<lparr>stdout := stdout w @ [line]\<rparr>"

section \<open>The SOAP template generator\<close>

text \<open>\<^verbatim>\<open>generate_d2_soap_templates.py\<close>, lines 4-9: the list of disease names.\<close>

definition diseases :: "pystr list" where
  "diseases =
    [[39640, 34880, 21387], ascii ''2'' @ [22411, 31958, 23615, 30149], [20896, 24515, 30149],
     [24515, 21147, 34928, 31469], [25151, 39076], [33041, 26775, 27515], [32954, 28814],
     [24930, 38459, 32954], [21742, 21912], [32925, 30828, 21270],
     [28040, 21270, 24615, 28291, 30113], [24613, 24615, 33008, 33146, 28814],
     [24930, 24615, 32958, 30149], [32958, 32467, 30707], [36139, 34880], [30002, 20130],
     [30171, 39118], [31867, 39118, 28287, 20851, 33410, 28814],
     [33136, 26894, 38388, 30424, 31361, 20986], [39592, 25240], [38417, 23614, 28814],
     [32966, 22218, 28814], [20083, 33146, 30284], [32954, 30284], [32963, 30284],
     [25233, 37057, 30151], [30315, 30187], [24085, 37329, 26862, 30149],
     [28145, 38745, 33033, 34880, 26643], [36133, 34880, 30151]]"

text \<open>
  Lines 13-20, the body of the loop: the record of one disease. The only expression that
  can raise is \<^verbatim>\<open>disease[0]\<close>, on an empty name.
\<close>

definition soap_template :: "pystr \<Rightarrow> error + pyval" where
  "soap_template disease =
     (case str_getitem disease 0 of
        Inl e \<Rightarrow> Inl e
      | Inr first \<Rightarrow> Inr (PDict (py_dict
          [(ascii ''disease'', PStr disease),
           (ascii ''icdCode'', PStr (ascii ''ICD-'' @ first @ str_int (len disease))),
           (ascii ''subjective'', PStr (disease @ [30456, 20851, 20027, 35785, 65306, 20363,
               22914, 22836, 26197, 12289, 22836, 30171, 12289, 20047, 21147, 31561, 65292,
               25345, 32493] @ ascii ''X'' @ [22825] @ ascii ''/'' @ [26376] @ ascii ''/''
               @ [24180] @ ascii ''...'')),
           (ascii ''objective'', PStr (disease @ [30456, 20851, 23458, 35266, 26816, 26597,
               65306, 20363, 22914] @ ascii ''BP XXX/XXX mmHg'' @ [65292, 24515, 29575]
               @ ascii ''XX'' @ [27425] @ ascii ''/'' @ [20998, 65292, 20307, 28201]
               @ ascii ''XX'' @ [8451, 65292, 23454, 39564, 23460, 26816, 26597, 24322, 24120,
               31561] @ ascii ''...'')),
           (ascii ''assessment'', PStr (disease @ [35786, 26029, 35780, 20272, 65306, 20363,
               22914] @ disease @ ascii ''X'' @ [32423, 65288, 26497, 39640, 21361]
               @ ascii ''/'' @ [39640, 21361] @ ascii ''/'' @ [20013, 21361, 65289, 65292, 30149,
               24773, 31283, 23450] @ ascii ''/'' @ [36827, 23637] @ ascii ''/'' @ [24694,
               21270] @ ascii ''...'')),
           (ascii ''plan'', PStr (disease @ [27835, 30103, 35745, 21010, 65306] @ ascii ''1. ''
               @ [33647, 29289, 35843, 25972] @ ascii '' 2. '' @ [29983, 27963, 26041, 24335,
               24178, 39044] @ ascii '' 3. '' @ [23450, 26399, 22797, 26597] @ ascii '' 4. ''
               @ [20581, 24247, 25945, 32946] @ ascii ''...''))])))"

text \<open>Lines 11-21: the loop appends one record per disease; an exception ends it.\<close>

fun soap_loop :: "pystr list \<Rightarrow> pyval list \<Rightarrow> error + pyval list" where
  "soap_loop [] soap_templates = Inr soap_templates"
| "soap_loop (disease # rest) soap_templates =
     (case soap_template disease of
        Inl e \<Rightarrow> Inl e
      | Inr template \<Rightarrow> soap_loop rest (soap_templates @ [template]))"

definition soap_templates :: "error + pyval list" where
  "soap_templates = soap_loop diseases []"

definition d2_output_path :: pystr where
  "d2_output_path = ascii ''data/d2_soap_templates.json''"

text \<open>Lines 3-28: the generator.\<close>

definition generate_d2_soap_templates :: "world \<Rightarrow> error + world" where
  "generate_d2_soap_templates w =
     (case soap_templates of
        Inl e \<Rightarrow> Inl e
      | Inr ts \<Rightarrow>
          (case json_dump_to d2_output_path (PList ts) w of
             Inl e \<Rightarrow> Inl e
           | Inr w' \<Rightarrow>
               Inr (print (ascii ''Output saved to '' @ d2_output_path)
                     (print (ascii ''Generated '' @ str_int (len ts)
                         @ ascii '' SOAP templates.'') w'))))"

section \<open>The disease staging generator\<close>

text \<open>
  \<^verbatim>\<open>generate_d6_disease_staging.py\<close>. The disease tables are dictionaries from the disease
  name to its code; the stage lists are the list literals that the loops iterate over,
  named here after their loop.
\<close>

text \<open>Lines 7-23.\<close>

definition tnm_diseases :: "(pystr \<times> pystr) list" where
  "tnm_diseases =
    py_dict
      [([32954, 30284], ascii ''C34''),
       ([32963, 30284], ascii ''C16''),
       ([32925, 30284], ascii ''C22''),
       ([32467, 30452, 32928, 30284], ascii ''C18''),
       ([20083, 33146, 30284], ascii ''C50''),
       ([39135, 31649, 30284], ascii ''C15''),
       ([33008, 33146, 30284], ascii ''C25''),
       ([32958, 30284], ascii ''C64''),
       ([33152, 33009, 30284], ascii ''C67''),
       ([21069, 21015, 33146, 30284], ascii ''C61''),
       ([23467, 39048, 30284], ascii ''C53''),
       ([21365, 24034, 30284], ascii ''C56''),
       ([30002, 29366, 33146, 30284], ascii ''C73''),
       ([40657, 33394, 32032, 30244], ascii ''C43''),
       ([28107, 24052, 30244], ascii ''C85'')]"

text \<open>Lines 26-31.\<close>

definition tnm_stages :: "pyval list" where
  "tnm_stages =
    [PDict (py_dict
       [(ascii ''stage'', PStr (ascii ''I'' @ [26399])),
        (ascii ''criteria'', PStr (ascii ''T1-2N0M0'')),
        (ascii ''description'', PStr [32959, 30244, 23616, 38480, 20110, 21407, 21457, 22120,
            23448, 65292, 26080, 28107, 24052, 32467, 36716, 31227])]),
     PDict (py_dict
       [(ascii ''stage'', PStr (ascii ''II'' @ [26399])),
        (ascii ''criteria'', PStr (ascii ''T1-2N1M0 '' @ [25110] @ ascii '' T3N0M0'')),
        (ascii ''description'', PStr [32959, 30244, 20405, 29359, 21516, 20391, 28107, 24052,
            32467])]),
     PDict (py_dict
       [(ascii ''stage'', PStr (ascii ''III'' @ [26399])),
        (ascii ''criteria'', PStr (ascii ''T3-4N1-2M0'')),
        (ascii ''description'', PStr [23616, 37096, 26202, 26399, 65292, 21306, 22495, 28107,
            24052, 32467, 24191, 27867, 21463, 32047])]),
     PDict (py_dict
       [(ascii ''stage'', PStr (ascii ''IV'' @ [26399])),
        (ascii ''criteria'', PStr ([20219, 20309] @ ascii ''T'' @ [20219, 20309]
            @ ascii ''NM1'')),
        (ascii ''description'', PStr [36828, 22788, 36716, 31227])])]"

text \<open>Lines 41-45.\<close>

definition nyha_diseases :: "(pystr \<times> pystr) list" where
  "nyha_diseases =
    py_dict
      [([24515, 21147, 34928, 31469], ascii ''I50''),
       ([39118, 28287, 24615, 24515, 33039, 30149], ascii ''I09''),
       ([25193, 24352, 22411, 24515, 32908, 30149], ascii ''I42.0'')]"

text \<open>Lines 47-52.\<close>

definition nyha_stages :: "pyval list" where
  "nyha_stages =
    [PDict (py_dict
       [(ascii ''stage'', PStr (ascii ''I'' @ [32423])),
        (ascii ''criteria'', PStr [26080, 30151, 29366, 65292, 26085, 24120, 27963, 21160, 19981,
            21463, 38480]),
        (ascii ''description'', PStr [20307, 21147, 27963, 21160, 19981, 21463, 38480, 21046])]),
     PDict (py_dict
       [(ascii ''stage'', PStr (ascii ''II'' @ [32423])),
        (ascii ''criteria'', PStr [26085, 24120, 27963, 21160, 36731, 24230, 21463, 38480, 65292,
            20241, 24687, 26102, 26080, 30151, 29366]),
        (ascii ''description'', PStr [20307, 21147, 27963, 21160, 36731, 24230, 21463, 38480])]),
     PDict (py_dict
       [(ascii ''stage'', PStr (ascii ''III'' @ [32423])),
        (ascii ''criteria'', PStr [26085, 24120, 27963, 21160, 26126, 26174, 21463, 38480, 65292,
            20241, 24687, 26102, 26080, 30151, 29366]),
        (ascii ''description'', PStr [20307, 21147, 27963, 21160, 26126, 26174, 21463, 38480])]),
     PDict (py_dict
       [(ascii ''stage'', PStr (ascii ''IV'' @ [32423])),
        (ascii ''criteria'', PStr [20219, 20309, 20307, 21147, 27963, 21160, 22343, 24341, 36215,
            30151, 29366, 65292, 20241, 24687, 26102, 20134, 26377, 30151, 29366]),
        (ascii ''description'', PStr [19981, 33021, 36827, 34892, 20219, 20309, 20307, 21147,
            27963, 21160])])]"

text \<open>Lines 62-66.\<close>

definition ckd_diseases :: "(pystr \<times> pystr) list" where
  "ckd_diseases =
    py_dict
      [([24930, 24615, 32958, 30149], ascii ''N18''),
       ([31958, 23615, 30149, 32958, 30149], ascii ''E10.2''),
       ([39640, 34880, 21387, 32958, 30149], ascii ''I12'')]"

text \<open>Lines 68-74.\<close>

definition ckd_stages :: "pyval list" where
  "ckd_stages =
    [PDict (py_dict
       [(ascii ''stage'', PStr (ascii ''1'' @ [26399])),
        (ascii ''criteria'', PStr (ascii ''GFR '' @ [8805] @ ascii '' 90 mL/min/1.73m'' @ [178])),
        (ascii ''description'', PStr [32958, 21151, 33021, 27491, 24120, 25110, 21319, 39640,
            65292, 20276, 26377, 32958, 25439, 20260, 35777, 25454])]),
     PDict (py_dict
       [(ascii ''stage'', PStr (ascii ''2'' @ [26399])),
        (ascii ''criteria'', PStr (ascii ''GFR 60-89 mL/min/1.73m'' @ [178])),
        (ascii ''description'', PStr [32958, 21151, 33021, 36731, 24230, 19979, 38477, 65292,
            20276, 26377, 32958, 25439, 20260, 35777, 25454])]),
     PDict (py_dict
       [(ascii ''stage'', PStr (ascii ''3'' @ [26399])),
        (ascii ''criteria'', PStr (ascii ''GFR 30-59 mL/min/1.73m'' @ [178])),
        (ascii ''description'', PStr [32958, 21151, 33021, 20013, 24230, 19979, 38477])]),
     PDict (py_dict
       [(ascii ''stage'', PStr (ascii ''4'' @ [26399])),
        (ascii ''criteria'', PStr (ascii ''GFR 15-29 mL/min/1.73m'' @ [178])),
        (ascii ''description'', PStr [32958, 21151, 33021, 37325, 24230, 19979, 38477])]),
     PDict (py_dict
       [(ascii ''stage'', PStr (ascii ''5'' @ [26399])),
        (ascii ''criteria'', PStr (ascii ''GFR < 15 mL/min/1.73m'' @ [178] @ ascii '' ''
            @ [25110, 36879, 26512])),
        (ascii ''description'', PStr [32456, 26411, 26399, 32958, 30149])])]"

text \<open>Lines 84-89.\<close>

definition gold_stages :: "pyval list" where
  "gold_stages =
    [PDict (py_dict
       [(ascii ''stage'', PStr (ascii ''I'' @ [32423] @ ascii '' ('' @ [36731, 24230]
           @ ascii '')'')),
        (ascii ''criteria'', PStr (ascii ''FEV1/FVC < 0.70 '' @ [19988] @ ascii '' FEV1 ''
            @ [8805] @ ascii '' 80% '' @ [39044, 35745, 20540])),
        (ascii ''description'', PStr [36731, 24230, 27668, 27969, 21463, 38480])]),
     PDict (py_dict
       [(ascii ''stage'', PStr (ascii ''II'' @ [32423] @ ascii '' ('' @ [20013, 24230]
           @ ascii '')'')),
        (ascii ''criteria'', PStr (ascii ''FEV1/FVC < 0.70 '' @ [19988] @ ascii '' 50% ''
            @ [8804] @ ascii '' FEV1 < 80% '' @ [39044, 35745, 20540])),
        (ascii ''description'', PStr [20013, 24230, 27668, 27969, 21463, 38480])]),
     PDict (py_dict
       [(ascii ''stage'', PStr (ascii ''III'' @ [32423] @ ascii '' ('' @ [37325, 24230]
           @ ascii '')'')),
        (ascii ''criteria'', PStr (ascii ''FEV1/FVC < 0.70 '' @ [19988] @ ascii '' 30% ''
            @ [8804] @ ascii '' FEV1 < 50% '' @ [39044, 35745, 20540])),
        (ascii ''description'', PStr [37325, 24230, 27668, 27969, 21463, 38480])]),
     PDict (py_dict
       [(ascii ''stage'', PStr (ascii ''IV'' @ [32423] @ ascii '' ('' @ [26497, 37325, 24230]
           @ ascii '')'')),
        (ascii ''criteria'', PStr (ascii ''FEV1/FVC < 0.70 '' @ [19988]
            @ ascii '' FEV1 < 30% '' @ [39044, 35745, 20540] @ ascii '' '' @ [25110]
            @ ascii '' FEV1 < 50% '' @ [39044, 35745, 20540, 20276, 24930, 24615, 21628, 21560,
            34928, 31469])),
        (ascii ''description'', PStr [26497, 37325, 24230, 27668, 27969, 21463, 38480])])]"

text \<open>Lines 99-102.\<close>

definition child_pugh_diseases :: "(pystr \<times> pystr) list" where
  "child_pugh_diseases =
    py_dict
      [([32925, 30828, 21270], ascii ''K74''),
       ([32925, 34928, 31469], ascii ''K72'')]"

text \<open>Lines 104-108.\<close>

definition child_pugh_stages :: "pyval list" where
  "child_pugh_stages =
    [PDict (py_dict
       [(ascii ''stage'', PStr (ascii ''A'' @ [32423])),
        (ascii ''criteria'', PStr (ascii ''5-6'' @ [20998])),
        (ascii ''description'', PStr [32925, 21151, 33021, 20195, 20607, 33391, 22909])]),
     PDict (py_dict
       [(ascii ''stage'', PStr (ascii ''B'' @ [32423])),
        (ascii ''criteria'', PStr (ascii ''7-9'' @ [20998])),
        (ascii ''description'', PStr [32925, 21151, 33021, 22833, 20195, 20607])]),
     PDict (py_dict
       [(ascii ''stage'', PStr (ascii ''C'' @ [32423])),
        (ascii ''criteria'', PStr (ascii ''10-15'' @ [20998])),
        (ascii ''description'', PStr [32925, 21151, 33021, 20005, 37325, 22833, 20195, 20607])])]"

text \<open>Lines 118-122.\<close>

definition bp_grade_stages :: "pyval list" where
  "bp_grade_stages =
    [PDict (py_dict
       [(ascii ''stage'', PStr (ascii ''1'' @ [32423])),
        (ascii ''criteria'', PStr ([25910, 32553, 21387] @ ascii ''140-159 mmHg '' @ [25110]
            @ ascii '' '' @ [33298, 24352, 21387] @ ascii ''90-99 mmHg'')),
        (ascii ''description'', PStr [36731, 24230, 39640, 34880, 21387])]),
     PDict (py_dict
       [(ascii ''stage'', PStr (ascii ''2'' @ [32423])),
        (ascii ''criteria'', PStr ([25910, 32553, 21387] @ ascii ''160-179 mmHg '' @ [25110]
            @ ascii '' '' @ [33298, 24352, 21387] @ ascii ''100-109 mmHg'')),
        (ascii ''description'', PStr [20013, 24230, 39640, 34880, 21387])]),
     PDict (py_dict
       [(ascii ''stage'', PStr (ascii ''3'' @ [32423])),
        (ascii ''criteria'', PStr ([25910, 32553, 21387, 8805] @ ascii ''180 mmHg '' @ [25110]
            @ ascii '' '' @ [33298, 24352, 21387, 8805] @ ascii ''110 mmHg'')),
        (ascii ''description'', PStr [37325, 24230, 39640, 34880, 21387])])]"

text \<open>Lines 130-135.\<close>

definition bp_risk_stages :: "pyval list" where
  "bp_risk_stages =
    [PDict (py_dict
       [(ascii ''stage'', PStr [20302, 21361]),
        (ascii ''criteria'', PStr [26080, 38774, 22120, 23448, 25439, 23475, 65292, 26080, 31958,
            23615, 30149, 65292, 26080, 24515, 34880, 31649, 30142, 30149]),
        (ascii ''description'', PStr ([26410, 26469] @ ascii ''10'' @ [24180, 24515, 34880,
            31649, 20107, 20214, 39118, 38505] @ ascii ''<15%''))]),
     PDict (py_dict
       [(ascii ''stage'', PStr [20013, 21361]),
        (ascii ''criteria'', PStr (ascii ''1-2'' @ [20010, 21361, 38505, 22240, 32032, 65292,
            26080, 38774, 22120, 23448, 25439, 23475])),
        (ascii ''description'', PStr ([26410, 26469] @ ascii ''10'' @ [24180, 24515, 34880,
            31649, 20107, 20214, 39118, 38505] @ ascii ''15-20%''))]),
     PDict (py_dict
       [(ascii ''stage'', PStr [39640, 21361]),
        (ascii ''criteria'', PStr ([8805] @ ascii ''3'' @ [20010, 21361, 38505, 22240, 32032]
            @ ascii '' '' @ [25110] @ ascii '' '' @ [38774, 22120, 23448, 25439, 23475]
            @ ascii '' '' @ [25110] @ ascii '' '' @ [31958, 23615, 30149])),
        (ascii ''description'', PStr ([26410, 26469] @ ascii ''10'' @ [24180, 24515, 34880,
            31649, 20107, 20214, 39118, 38505] @ ascii ''20-30%''))]),
     PDict (py_dict
       [(ascii ''stage'', PStr [24456, 39640, 21361]),
        (ascii ''criteria'', PStr ([24050, 26377, 24515, 34880, 31649, 30142, 30149]
            @ ascii '' '' @ [25110] @ ascii '' '' @ [31958, 23615, 30149, 20276, 38774, 22120,
            23448, 25439, 23475])),
        (ascii ''description'', PStr ([26410, 26469] @ ascii ''10'' @ [24180, 24515, 34880,
            31649, 20107, 20214, 39118, 38505, 62] @ ascii ''30%''))])]"

text \<open>Lines 145-149.\<close>

definition retinopathy_stages :: "pyval list" where
  "retinopathy_stages =
    [PDict (py_dict
       [(ascii ''stage'', PStr [38750, 22686, 27542, 26399]),
        (ascii ''criteria'', PStr [24494, 21160, 33033, 30244, 12289, 20986, 34880, 12289, 30828,
            24615, 28183, 20986]),
        (ascii ''description'', PStr [26089, 26399, 30149, 21464])]),
     PDict (py_dict
       [(ascii ''stage'', PStr [22686, 27542, 21069, 26399]),
        (ascii ''criteria'', PStr [26825, 32110, 26001, 12289, 38745, 33033, 20018, 29664, 26679,
            25913, 21464]),
        (ascii ''description'', PStr [36827, 23637, 26399, 30149, 21464])]),
     PDict (py_dict
       [(ascii ''stage'', PStr [22686, 27542, 26399]),
        (ascii ''criteria'', PStr [26032, 29983, 34880, 31649, 24418, 25104, 12289, 29627, 29827,
            20307, 20986, 34880]),
        (ascii ''description'', PStr [26202, 26399, 30149, 21464])])]"

text \<open>Lines 157-163.\<close>

definition nephropathy_stages :: "pyval list" where
  "nephropathy_stages =
    [PDict (py_dict
       [(ascii ''stage'', PStr (ascii ''I'' @ [26399])),
        (ascii ''criteria'', PStr [32958, 23567, 29699, 39640, 28388, 36807, 65292, 32958, 33039,
            32933, 22823]),
        (ascii ''description'', PStr [26089, 26399, 21151, 33021, 20130, 36827])]),
     PDict (py_dict
       [(ascii ''stage'', PStr (ascii ''II'' @ [26399])),
        (ascii ''criteria'', PStr [27491, 24120, 30333, 34507, 30333, 23615, 65292, 32958, 33039,
            30149, 29702, 25913, 21464]),
        (ascii ''description'', PStr [27491, 24120, 30333, 34507, 30333, 23615, 26399])]),
     PDict (py_dict
       [(ascii ''stage'', PStr (ascii ''III'' @ [26399])),
        (ascii ''criteria'', PStr [24494, 37327, 30333, 34507, 30333, 23615]),
        (ascii ''description'', PStr [26089, 26399, 32958, 30149, 26399])]),
     PDict (py_dict
       [(ascii ''stage'', PStr (ascii ''IV'' @ [26399])),
        (ascii ''criteria'', PStr [20020, 24202, 30333, 34507, 30333, 23615]),
        (ascii ''description'', PStr [20020, 24202, 32958, 30149, 26399])]),
     PDict (py_dict
       [(ascii ''stage'', PStr (ascii ''V'' @ [26399])),
        (ascii ''criteria'', PStr [32456, 26411, 26399, 32958, 30149]),
        (ascii ''description'', PStr [32456, 26411, 26399, 32958, 30149])])]"

text \<open>Lines 171-175.\<close>

definition neuropathy_stages :: "pyval list" where
  "neuropathy_stages =
    [PDict (py_dict
       [(ascii ''stage'', PStr [26080, 30151, 29366, 26399]),
        (ascii ''criteria'', PStr [31070, 32463, 20256, 23548, 36895, 24230, 24322, 24120]),
        (ascii ''description'', PStr [26080, 20020, 24202, 30151, 29366])]),
     PDict (py_dict
       [(ascii ''stage'', PStr [30151, 29366, 26399]),
        (ascii ''criteria'', PStr [24863, 35273, 24322, 24120, 12289, 30140, 30171, 12289, 40635,
            26408]),
        (ascii ''description'', PStr [20986, 29616, 20020, 24202, 30151, 29366])]),
     PDict (py_dict
       [(ascii ''stage'', PStr [24182, 21457, 30151, 26399]),
        (ascii ''criteria'', PStr ([36275, 28291, 30113, 12289] @ ascii ''Charcot'' @ [20851,
            33410])),
        (ascii ''description'', PStr [20986, 29616, 20005, 37325, 24182, 21457, 30151])])]"

text \<open>Lines 185-190.\<close>

definition burn_stages :: "pyval list" where
  "burn_stages =
    [PDict (py_dict
       [(ascii ''stage'', PStr (ascii ''I'' @ [24230])),
        (ascii ''criteria'', PStr [32418, 26001, 65292, 26080, 27700, 30129]),
        (ascii ''description'', PStr [34920, 30382, 25439, 20260])]),
     PDict (py_dict
       [(ascii ''stage'', PStr ([27973] @ ascii ''II'' @ [24230])),
        (ascii ''criteria'', PStr [27700, 30129, 65292, 22522, 24213, 28526, 32418]),
        (ascii ''description'', PStr [30495, 30382, 27973, 23618, 25439, 20260])]),
     PDict (py_dict
       [(ascii ''stage'', PStr ([28145] @ ascii ''II'' @ [24230])),
        (ascii ''criteria'', PStr [27700, 30129, 65292, 22522, 24213, 33485, 30333, 65292, 30171,
            35273, 36831, 38045]),
        (ascii ''description'', PStr [30495, 30382, 28145, 23618, 25439, 20260])]),
     PDict (py_dict
       [(ascii ''stage'', PStr (ascii ''III'' @ [24230])),
        (ascii ''criteria'', PStr [28966, 30146, 65292, 26080, 30171, 35273]),
        (ascii ''description'', PStr [20840, 23618, 30382, 32932, 25439, 20260])])]"

text \<open>Lines 200-216.\<close>

definition ao_fractures :: "(pystr \<times> pystr) list" where
  "ao_fractures =
    py_dict
      [([32929, 39592, 39048, 39592, 25240], ascii ''S72.0''),
       ([32929, 39592, 24178, 39592, 25240], ascii ''S72.3''),
       ([33003, 39592, 24179, 21488, 39592, 25240], ascii ''S82.1''),
       ([36381, 20851, 33410, 39592, 25240], ascii ''S82.8''),
       ([26721, 39592, 36828, 31471, 39592, 25240], ascii ''S52.5''),
       ([32945, 39592, 36817, 31471, 39592, 25240], ascii ''S42.2''),
       ([32945, 39592, 24178, 39592, 25240], ascii ''S42.3''),
       ([38145, 39592, 39592, 25240], ascii ''S42.0''),
       ([33034, 26609, 21387, 32553, 24615, 39592, 25240], ascii ''S32.0''),
       ([39592, 30406, 39592, 25240], ascii ''S32.8''),
       ([32929, 39592, 39617, 19978, 39592, 25240], ascii ''S72.4''),
       ([33003, 39592, 24178, 39592, 25240], ascii ''S82.2''),
       ([36319, 39592, 39592, 25240], ascii ''S92.0''),
       ([33311, 39592, 39592, 25240], ascii ''S62.0''),
       ([25351, 39592, 39592, 25240], ascii ''S62.6'')]"

text \<open>Lines 219-223.\<close>

definition ao_stages :: "pyval list" where
  "ao_stages =
    [PDict (py_dict
       [(ascii ''stage'', PStr (ascii ''A'' @ [22411])),
        (ascii ''criteria'', PStr [31616, 21333, 39592, 25240]),
        (ascii ''description'', PStr [39592, 25240, 32447, 21333, 19968])]),
     PDict (py_dict
       [(ascii ''stage'', PStr (ascii ''B'' @ [22411])),
        (ascii ''criteria'', PStr [26964, 24418, 39592, 25240]),
        (ascii ''description'', PStr [26377, 20013, 38388, 39592, 22359])]),
     PDict (py_dict
       [(ascii ''stage'', PStr (ascii ''C'' @ [22411])),
        (ascii ''criteria'', PStr [22797, 26434, 39592, 25240]),
        (ascii ''description'', PStr [31881, 30862, 24615, 39592, 25240])])]"

text \<open>Lines 233-239.\<close>

definition ecog_stages :: "pyval list" where
  "ecog_stages =
    [PDict (py_dict
       [(ascii ''stage'', PStr (ascii ''0'' @ [20998])),
        (ascii ''criteria'', PStr [27963, 21160, 23436, 20840, 27491, 24120, 65292, 26080, 20219,
            20309, 30151, 29366]),
        (ascii ''description'', PStr [23436, 20840, 27963, 21160])]),
     PDict (py_dict
       [(ascii ''stage'', PStr (ascii ''1'' @ [20998])),
        (ascii ''criteria'', PStr [21487, 33258, 30001, 27963, 21160, 65292, 20294, 19981, 33021,
            20174, 20107, 37325, 20307, 21147, 21171, 21160]),
        (ascii ''description'', PStr [36731, 24230, 30151, 29366])]),
     PDict (py_dict
       [(ascii ''stage'', PStr (ascii ''2'' @ [20998])),
        (ascii ''criteria'', PStr ([21487, 33258, 30001, 27963, 21160, 65292, 20294, 19981,
            33021, 20174, 20107, 20219, 20309, 24037, 20316, 65292, 26085, 38388, 21351, 24202,
            26102, 38388, 23569, 20110] @ ascii ''50%'')),
        (ascii ''description'', PStr [20013, 24230, 30151, 29366])]),
     PDict (py_dict
       [(ascii ''stage'', PStr (ascii ''3'' @ [20998])),
        (ascii ''criteria'', PStr ([26085, 38388, 21351, 24202, 26102, 38388, 22810, 20110]
            @ ascii ''50%'' @ [65292, 20294, 21487, 29983, 27963, 33258, 29702])),
        (ascii ''description'', PStr [37325, 24230, 30151, 29366])]),
     PDict (py_dict
       [(ascii ''stage'', PStr (ascii ''4'' @ [20998])),
        (ascii ''criteria'', PStr [23436, 20840, 21351, 24202, 65292, 29983, 27963, 19981, 33021,
            33258, 29702]),
        (ascii ''description'', PStr [23436, 20840, 21351, 24202])])]"

text \<open>Lines 249-253.\<close>

definition gcs_stages :: "pyval list" where
  "gcs_stages =
    [PDict (py_dict
       [(ascii ''stage'', PStr (ascii ''3-8'' @ [20998])),
        (ascii ''criteria'', PStr [37325, 24230, 24847, 35782, 38556, 30861]),
        (ascii ''description'', PStr [26127, 36855])]),
     PDict (py_dict
       [(ascii ''stage'', PStr (ascii ''9-12'' @ [20998])),
        (ascii ''criteria'', PStr [20013, 24230, 24847, 35782, 38556, 30861]),
        (ascii ''description'', PStr [21980, 30561, 25110, 26127, 30561])]),
     PDict (py_dict
       [(ascii ''stage'', PStr (ascii ''13-15'' @ [20998])),
        (ascii ''criteria'', PStr [36731, 24230, 24847, 35782, 38556, 30861]),
        (ascii ''description'', PStr [28165, 37266, 25110, 23450, 21521, 21147, 38556, 30861])])]"

text \<open>Lines 263-270.\<close>

definition asa_stages :: "pyval list" where
  "asa_stages =
    [PDict (py_dict
       [(ascii ''stage'', PStr (ascii ''I'' @ [32423])),
        (ascii ''criteria'', PStr [20581, 24247, 24739, 32773]),
        (ascii ''description'', PStr [26080, 31995, 32479, 24615, 30142, 30149])]),
     PDict (py_dict
       [(ascii ''stage'', PStr (ascii ''II'' @ [32423])),
        (ascii ''criteria'', PStr [36731, 24230, 31995, 32479, 24615, 30142, 30149]),
        (ascii ''description'', PStr [22914, 36731, 24230, 39640, 34880, 21387, 12289, 31958,
            23615, 30149])]),
     PDict (py_dict
       [(ascii ''stage'', PStr (ascii ''III'' @ [32423])),
        (ascii ''criteria'', PStr [37325, 24230, 31995, 32479, 24615, 30142, 30149]),
        (ascii ''description'', PStr [22914, 25511, 21046, 19981, 20339, 30340, 39640, 34880,
            21387, 12289, 31958, 23615, 30149])]),
     PDict (py_dict
       [(ascii ''stage'', PStr (ascii ''IV'' @ [32423])),
        (ascii ''criteria'', PStr [21361, 21450, 29983, 21629, 30340, 37325, 24230, 31995, 32479,
            24615, 30142, 30149]),
        (ascii ''description'', PStr ([22914, 19981, 31283, 23450, 24515, 32478, 30171, 12289,
            37325, 24230] @ ascii ''COPD''))]),
     PDict (py_dict
       [(ascii ''stage'', PStr (ascii ''V'' @ [32423])),
        (ascii ''criteria'', PStr [28626, 27515, 24739, 32773]),
        (ascii ''description'', PStr ([39044, 35745] @ ascii ''24'' @ [23567, 26102, 20869,
            27515, 20129]))]),
     PDict (py_dict
       [(ascii ''stage'', PStr (ascii ''VI'' @ [32423])),
        (ascii ''criteria'', PStr [33041, 27515, 20129, 24739, 32773]),
        (ascii ''description'', PStr [22120, 23448, 25424, 29486, 32773])])]"

text \<open>Lines 280-287.\<close>

definition forrest_stages :: "pyval list" where
  "forrest_stages =
    [PDict (py_dict
       [(ascii ''stage'', PStr (ascii ''Ia'')),
        (ascii ''criteria'', PStr [27963, 21160, 24615, 21943, 23556, 29366, 20986, 34880]),
        (ascii ''description'', PStr [39640, 21361])]),
     PDict (py_dict
       [(ascii ''stage'', PStr (ascii ''Ib'')),
        (ascii ''criteria'', PStr [27963, 21160, 24615, 28183, 34880]),
        (ascii ''description'', PStr [39640, 21361])]),
     PDict (py_dict
       [(ascii ''stage'', PStr (ascii ''IIa'')),
        (ascii ''criteria'', PStr [38750, 27963, 21160, 24615, 21487, 35265, 34880, 31649]),
        (ascii ''description'', PStr [20013, 21361])]),
     PDict (py_dict
       [(ascii ''stage'', PStr (ascii ''IIb'')),
        (ascii ''criteria'', PStr [38750, 27963, 21160, 24615, 38468, 30528, 34880, 20957,
            22359]),
        (ascii ''description'', PStr [20013, 21361])]),
     PDict (py_dict
       [(ascii ''stage'', PStr (ascii ''IIc'')),
        (ascii ''criteria'', PStr [38750, 27963, 21160, 24615, 40657, 33394, 26001, 28857, 22522,
            24213]),
        (ascii ''description'', PStr [20302, 21361])]),
     PDict (py_dict
       [(ascii ''stage'', PStr (ascii ''III'')),
        (ascii ''criteria'', PStr [28165, 27905, 22522, 24213]),
        (ascii ''description'', PStr [20302, 21361])])]"

text \<open>Lines 297-305.\<close>

definition mrs_stages :: "pyval list" where
  "mrs_stages =
    [PDict (py_dict
       [(ascii ''stage'', PStr (ascii ''0'' @ [20998])),
        (ascii ''criteria'', PStr [26080, 30151, 29366]),
        (ascii ''description'', PStr [23436, 20840, 24674, 22797])]),
     PDict (py_dict
       [(ascii ''stage'', PStr (ascii ''1'' @ [20998])),
        (ascii ''criteria'', PStr [26080, 26126, 26174, 27531, 30142]),
        (ascii ''description'', PStr [33021, 22815, 23436, 25104, 25152, 26377, 26085, 24120,
            27963, 21160])]),
     PDict (py_dict
       [(ascii ''stage'', PStr (ascii ''2'' @ [20998])),
        (ascii ''criteria'', PStr [36731, 24230, 27531, 30142]),
        (ascii ''description'', PStr [19981, 33021, 23436, 25104, 25152, 26377, 30149, 21069,
            27963, 21160, 65292, 20294, 21487, 29420, 31435, 29983, 27963])]),
     PDict (py_dict
       [(ascii ''stage'', PStr (ascii ''3'' @ [20998])),
        (ascii ''criteria'', PStr [20013, 24230, 27531, 30142]),
        (ascii ''description'', PStr [38656, 35201, 19968, 20123, 24110, 21161, 65292, 20294,
            26080, 38656, 20182, 20154, 25345, 32493, 29031, 25252])]),
     PDict (py_dict
       [(ascii ''stage'', PStr (ascii ''4'' @ [20998])),
        (ascii ''criteria'', PStr [20013, 37325, 24230, 27531, 30142]),
        (ascii ''description'', PStr [38656, 35201, 25345, 32493, 29031, 25252, 65292, 19981,
            33021, 29420, 31435, 34892, 36208, 25110, 29983, 27963])]),
     PDict (py_dict
       [(ascii ''stage'', PStr (ascii ''5'' @ [20998])),
        (ascii ''criteria'', PStr [37325, 24230, 27531, 30142]),
        (ascii ''description'', PStr [21351, 24202, 19981, 36215, 65292, 22823, 23567, 20415,
            22833, 31105, 65292, 38656, 35201, 25345, 32493, 25252, 29702])]),
     PDict (py_dict
       [(ascii ''stage'', PStr (ascii ''6'' @ [20998])),
        (ascii ''criteria'', PStr [27515, 20129]),
        (ascii ''description'', PStr [27515, 20129])])]"

text \<open>The record that each loop body appends (for example lines 32-38).\<close>

definition staging_entry :: "pystr \<Rightarrow> pystr \<Rightarrow> pystr \<Rightarrow> pyval \<Rightarrow> pystr \<Rightarrow> pyval" where
  "staging_entry disease icd_code stagingSystem stage_info category =
     PDict (py_dict
       [(ascii ''disease'', PStr disease),
        (ascii ''icdCode'', PStr icd_code),
        (ascii ''stagingSystem'', PStr stagingSystem),
        (ascii ''stages'', PList [stage_info]),
        (ascii ''category'', PStr category)])"

text \<open>
  \<^verbatim>\<open>for stage_info in [...]: data.append({...})\<close> for one disease with its code, staging
  system and category (for example lines 84-96, and the inner loop of lines 26-38).
\<close>

fun for_stage_info :: "pystr \<Rightarrow> pystr \<Rightarrow> pystr \<Rightarrow> pystr \<Rightarrow> pyval list \<Rightarrow> pyval list \<Rightarrow> pyval list" where
  "for_stage_info disease icd_code stagingSystem category [] data = data"
| "for_stage_info disease icd_code stagingSystem category (stage_info # rest) data =
     for_stage_info disease icd_code stagingSystem category rest
       (data @ [staging_entry disease icd_code stagingSystem stage_info category])"

text \<open>
  \<^verbatim>\<open>for disease, icd_code in table.items(): for stage_info in [...]: data.append({...})\<close>
  (for example lines 25-38).
\<close>

fun for_disease :: "pystr \<Rightarrow> pystr \<Rightarrow> pyval list \<Rightarrow> (pystr \<times> pystr) list \<Rightarrow> pyval list \<Rightarrow> pyval list" where
  "for_disease stagingSystem category stages [] data = data"
| "for_disease stagingSystem category stages ((disease, icd_code) # rest) data =
     for_disease stagingSystem category stages rest
       (for_stage_info disease icd_code stagingSystem category stages data)"

text \<open>Lines 4-312: the loops in the order of the source, each appending to \<^verbatim>\<open>data\<close>.\<close>

definition d6_data :: "pyval list" where
  "d6_data =
    (let data = [];
         data = \<comment> \<open>lines 25-38\<close>
           for_disease (ascii ''TNM'') [32959, 30244, 20998, 26399]
             tnm_stages (items tnm_diseases) data;
         data = \<comment> \<open>lines 46-59\<close>
           for_disease (ascii ''NYHA'') [24515, 21151, 33021, 20998, 32423]
             nyha_stages (items nyha_diseases) data;
         data = \<comment> \<open>lines 67-81\<close>
           for_disease (ascii ''CKD'') [32958, 30149, 20998, 26399]
             ckd_stages (items ckd_diseases) data;
         data = \<comment> \<open>lines 84-96\<close>
           for_stage_info [24930, 24615, 38459, 22622, 24615, 32954, 30142, 30149] (ascii ''J44'')
             (ascii ''GOLD'') [32954, 30149, 20998, 32423]
             gold_stages data;
         data = \<comment> \<open>lines 103-115\<close>
           for_disease (ascii ''Child-Pugh'') [32925, 30149, 20998, 32423]
             child_pugh_stages (items child_pugh_diseases) data;
         data = \<comment> \<open>lines 118-129\<close>
           for_stage_info [39640, 34880, 21387] (ascii ''I10'')
             [20998, 32423] [24515, 34880, 31649, 20998, 32423]
             bp_grade_stages data;
         data = \<comment> \<open>lines 130-142\<close>
           for_stage_info [39640, 34880, 21387] (ascii ''I10'')
             [21361, 38505, 20998, 23618] [24515, 34880, 31649, 20998, 32423]
             bp_risk_stages data;
         data = \<comment> \<open>lines 145-156\<close>
           for_stage_info [31958, 23615, 30149, 35270, 32593, 33180, 30149,
               21464] (ascii ''E10.3'')
             [20998, 26399] [31958, 23615, 30149, 24182, 21457, 30151, 20998, 26399]
             retinopathy_stages data;
         data = \<comment> \<open>lines 157-170\<close>
           for_stage_info [31958, 23615, 30149, 32958, 30149] (ascii ''E10.2'')
             [20998, 26399] [31958, 23615, 30149, 24182, 21457, 30151, 20998, 26399]
             nephropathy_stages data;
         data = \<comment> \<open>lines 171-182\<close>
           for_stage_info [31958, 23615, 30149, 21608, 22260, 31070, 32463, 30149,
               21464] (ascii ''E10.4'')
             [20998, 26399] [31958, 23615, 30149, 24182, 21457, 30151, 20998, 26399]
             neuropathy_stages data;
         data = \<comment> \<open>lines 185-197\<close>
           for_stage_info [28903, 20260] (ascii ''T30'')
             [20998, 24230] [21019, 20260, 20998, 24230]
             burn_stages data;
         data = \<comment> \<open>lines 218-230\<close>
           for_disease (ascii ''AO'' @ [20998, 22411]) [39592, 25240, 20998, 22411]
             ao_stages (items ao_fractures) data;
         data = \<comment> \<open>lines 233-246\<close>
           for_stage_info [32959, 30244, 24739, 32773, 19968, 33324, 29366,
               20917] (ascii ''Z08.8'')
             (ascii ''ECOG PS'') [19968, 33324, 29366, 20917, 35780, 20998]
             ecog_stages data;
         data = \<comment> \<open>lines 249-260\<close>
           for_stage_info [24847, 35782, 38556, 30861] (ascii ''R40.2'')
             (ascii ''GCS'') [31070, 32463, 21151, 33021, 35780, 20998]
             gcs_stages data;
         data = \<comment> \<open>lines 263-277\<close>
           for_stage_info [40635, 37257, 39118, 38505, 35780, 20272] (ascii ''Z01.8'')
             (ascii ''ASA PS'') [40635, 37257, 39118, 38505, 35780, 20272]
             asa_stages data;
         data = \<comment> \<open>lines 280-294\<close>
           for_stage_info [28040, 21270, 24615, 28291, 30113, 20986, 34880] (ascii ''K27.4'')
             (ascii ''Forrest'') [28040, 21270, 36947, 20986, 34880, 20998, 32423]
             forrest_stages data;
         data = \<comment> \<open>lines 297-312\<close>
           for_stage_info [33041, 21330, 20013, 21151, 33021, 39044, 21518] (ascii ''I63'')
             (ascii ''mRS'') [31070, 32463, 21151, 33021, 35780, 20998]
             mrs_stages data
     in data)"

definition d6_output_path :: pystr where
  "d6_output_path = ascii ''data/d6_disease_staging.json''"

text \<open>Lines 3-317: the generator.\<close>

definition generate_d6_disease_staging :: "world \<Rightarrow> error + world" where
  "generate_d6_disease_staging w =
     (case json_dump_to d6_output_path (PList d6_data) w of
        Inl e \<Rightarrow> Inl e
      | Inr w' \<Rightarrow>
          Inr (print (ascii ''Generated '' @ str_int (len d6_data)
                       @ ascii '' disease staging entries. Output saved to ''
                           @ d6_output_path) w'))"

section \<open>The department mapping generator\<close>

text \<open>
  \<^verbatim>\<open>generate_d8_department_mapping.py\<close>, lines 4-293: \<^verbatim>\<open>data\<close> is one list literal of
  department records. Each record is named here after its department code.
\<close>

definition dept_ICU :: pyval where
  "dept_ICU =
    PDict (py_dict
      [(ascii ''departmentCode'', PStr (ascii ''ICU'')),
       (ascii ''departmentName'', PStr [37325, 30151, 21307, 23398, 31185]),
       (ascii ''aliases'', PList [PStr (ascii ''ICU''), PStr [37325, 30151, 30417, 25252, 23460],
           PStr (ascii ''MICU''), PStr (ascii ''SICU'')]),
       (ascii ''category'', PStr [24613, 21361, 37325, 30151]),
       (ascii ''wards'', PList [PStr (ascii ''ICU-A'' @ [21306]), PStr (ascii ''ICU-B''
           @ [21306])]),
       (ascii ''bedCount'', PInt 30),
       (ascii ''specialRequirements'', PList [PStr (ascii ''24'' @ [23567, 26102, 30417, 25252]),
           PStr [21628, 21560, 26426, 31649, 29702], PStr (ascii ''CRRT'')])])"

definition dept_ER :: pyval where
  "dept_ER =
    PDict (py_dict
      [(ascii ''departmentCode'', PStr (ascii ''ER'')),
       (ascii ''departmentName'', PStr [24613, 35786, 31185]),
       (ascii ''aliases'', PList [PStr [24613, 35786], PStr [24613, 35786, 23460]]),
       (ascii ''category'', PStr [24613, 21361, 37325, 30151]),
       (ascii ''wards'', PList [PStr [24613, 35786, 25250, 25937, 23460], PStr [24613, 35786,
           35266, 23519, 23460]]),
       (ascii ''bedCount'', PInt 20),
       (ascii ''specialRequirements'', PList [PStr [24555, 36895, 35786, 26029], PStr [32039,
           24613, 22788, 29702], PStr [22810, 23398, 31185, 21327, 20316]])])"

definition dept_CARD :: pyval where
  "dept_CARD =
    PDict (py_dict
      [(ascii ''departmentCode'', PStr (ascii ''CARD'')),
       (ascii ''departmentName'', PStr [24515, 34880, 31649, 20869, 31185]),
       (ascii ''aliases'', PList [PStr [24515, 20869, 31185], PStr [24515, 20869]]),
       (ascii ''category'', PStr [20869, 31185, 31995, 32479]),
       (ascii ''wards'', PList [PStr [24515, 20869, 19968, 30149, 21306], PStr [24515, 20869,
           20108, 30149, 21306]]),
       (ascii ''bedCount'', PInt 60),
       (ascii ''specialRequirements'', PList [PStr [24515, 30005, 30417, 25252], PStr [20171,
           20837, 27835, 30103], PStr [24515, 33039, 24247, 22797]])])"

definition dept_RESP :: pyval where
  "dept_RESP =
    PDict (py_dict
      [(ascii ''departmentCode'', PStr (ascii ''RESP'')),
       (ascii ''departmentName'', PStr [21628, 21560, 20869, 31185]),
       (ascii ''aliases'', PList [PStr [21628, 21560, 31185], PStr [21628, 21560]]),
       (ascii ''category'', PStr [20869, 31185, 31995, 32479]),
       (ascii ''wards'', PList [PStr [21628, 21560, 19968, 30149, 21306], PStr [21628, 21560,
           20108, 30149, 21306]]),
       (ascii ''bedCount'', PInt 55),
       (ascii ''specialRequirements'', PList [PStr [21628, 21560, 26426, 25903, 25345],
           PStr [25903, 27668, 31649, 38236], PStr [32954, 21151, 33021, 26816, 26597]])])"

definition dept_GASTRO :: pyval where
  "dept_GASTRO =
    PDict (py_dict
      [(ascii ''departmentCode'', PStr (ascii ''GASTRO'')),
       (ascii ''departmentName'', PStr [28040, 21270, 20869, 31185]),
       (ascii ''aliases'', PList [PStr [28040, 21270, 31185], PStr [28040, 21270]]),
       (ascii ''category'', PStr [20869, 31185, 31995, 32479]),
       (ascii ''wards'', PList [PStr [28040, 21270, 19968, 30149, 21306], PStr [28040, 21270,
           20108, 30149, 21306]]),
       (ascii ''bedCount'', PInt 50),
       (ascii ''specialRequirements'', PList [PStr [32963, 32928, 38236], PStr [32925, 31359,
           21050], PStr [20869, 38236, 19979, 27835, 30103]])])"

definition dept_NEPHRO :: pyval where
  "dept_NEPHRO =
    PDict (py_dict
      [(ascii ''departmentCode'', PStr (ascii ''NEPHRO'')),
       (ascii ''departmentName'', PStr [32958, 33039, 20869, 31185]),
       (ascii ''aliases'', PList [PStr [32958, 20869, 31185], PStr [32958, 20869]]),
       (ascii ''category'', PStr [20869, 31185, 31995, 32479]),
       (ascii ''wards'', PList [PStr [32958, 20869, 30149, 21306]]),
       (ascii ''bedCount'', PInt 40),
       (ascii ''specialRequirements'', PList [PStr [34880, 28082, 36879, 26512], PStr [33145,
           33180, 36879, 26512], PStr [32958, 27963, 26816]])])"

definition dept_ENDO :: pyval where
  "dept_ENDO =
    PDict (py_dict
      [(ascii ''departmentCode'', PStr (ascii ''ENDO'')),
       (ascii ''departmentName'', PStr [20869, 20998, 27852, 31185]),
       (ascii ''aliases'', PList [PStr [20869, 20998, 27852]]),
       (ascii ''category'', PStr [20869, 31185, 31995, 32479]),
       (ascii ''wards'', PList [PStr [20869, 20998, 27852, 30149, 21306]]),
       (ascii ''bedCount'', PInt 45),
       (ascii ''specialRequirements'', PList [PStr [34880, 31958, 31649, 29702], PStr [30002,
           29366, 33146, 21151, 33021, 35780, 20272], PStr [39592, 23494, 24230, 26816,
           26597]])])"

definition dept_HEMA :: pyval where
  "dept_HEMA =
    PDict (py_dict
      [(ascii ''departmentCode'', PStr (ascii ''HEMA'')),
       (ascii ''departmentName'', PStr [34880, 28082, 20869, 31185]),
       (ascii ''aliases'', PList [PStr [34880, 28082, 31185]]),
       (ascii ''category'', PStr [20869, 31185, 31995, 32479]),
       (ascii ''wards'', PList [PStr [34880, 28082, 30149, 21306]]),
       (ascii ''bedCount'', PInt 35),
       (ascii ''specialRequirements'', PList [PStr [39592, 39635, 31359, 21050], PStr [21270,
           30103], PStr [36896, 34880, 24178, 32454, 32990, 31227, 26893]])])"

definition dept_RHEUM :: pyval where
  "dept_RHEUM =
    PDict (py_dict
      [(ascii ''departmentCode'', PStr (ascii ''RHEUM'')),
       (ascii ''departmentName'', PStr [39118, 28287, 20813, 30123, 31185]),
       (ascii ''aliases'', PList [PStr [39118, 28287, 31185]]),
       (ascii ''category'', PStr [20869, 31185, 31995, 32479]),
       (ascii ''wards'', PList [PStr [39118, 28287, 20813, 30123, 30149, 21306]]),
       (ascii ''bedCount'', PInt 30),
       (ascii ''specialRequirements'', PList [PStr [20813, 30123, 25233, 21046, 21058, 27835,
           30103], PStr [20851, 33410, 33108, 31359, 21050]])])"

definition dept_NEURO :: pyval where
  "dept_NEURO =
    PDict (py_dict
      [(ascii ''departmentCode'', PStr (ascii ''NEURO'')),
       (ascii ''departmentName'', PStr [31070, 32463, 20869, 31185]),
       (ascii ''aliases'', PList [PStr [31070, 20869, 31185], PStr [31070, 20869]]),
       (ascii ''category'', PStr [20869, 31185, 31995, 32479]),
       (ascii ''wards'', PList [PStr [31070, 20869, 19968, 30149, 21306], PStr [31070, 20869,
           20108, 30149, 21306]]),
       (ascii ''bedCount'', PInt 60),
       (ascii ''specialRequirements'', PList [PStr [33041, 30005, 22270], PStr [32908, 30005,
           22270], PStr [31070, 32463, 24247, 22797]])])"

definition dept_INFECT :: pyval where
  "dept_INFECT =
    PDict (py_dict
      [(ascii ''departmentCode'', PStr (ascii ''INFECT'')),
       (ascii ''departmentName'', PStr [24863, 26579, 31185]),
       (ascii ''aliases'', PList [PStr [20256, 26579, 31185]]),
       (ascii ''category'', PStr [20869, 31185, 31995, 32479]),
       (ascii ''wards'', PList [PStr [24863, 26579, 30149, 21306]]),
       (ascii ''bedCount'', PInt 30),
       (ascii ''specialRequirements'', PList [PStr [38548, 31163, 31649, 29702], PStr [25239,
           24863, 26579, 27835, 30103]])])"

definition dept_GSURG :: pyval where
  "dept_GSURG =
    PDict (py_dict
      [(ascii ''departmentCode'', PStr (ascii ''GSURG'')),
       (ascii ''departmentName'', PStr [26222, 36890, 22806, 31185]),
       (ascii ''aliases'', PList [PStr [26222, 22806, 31185], PStr [26222, 22806]]),
       (ascii ''category'', PStr [22806, 31185, 31995, 32479]),
       (ascii ''wards'', PList [PStr [26222, 22806, 19968, 30149, 21306], PStr [26222, 22806,
           20108, 30149, 21306]]),
       (ascii ''bedCount'', PInt 70),
       (ascii ''specialRequirements'', PList [PStr [33145, 33108, 38236, 25163, 26415],
           PStr [32963, 32928, 36947, 25163, 26415], PStr [30002, 29366, 33146, 25163, 26415]])])"

definition dept_ORTHO :: pyval where
  "dept_ORTHO =
    PDict (py_dict
      [(ascii ''departmentCode'', PStr (ascii ''ORTHO'')),
       (ascii ''departmentName'', PStr [39592, 31185]),
       (ascii ''aliases'', PList [PStr [39592, 22806, 31185]]),
       (ascii ''category'', PStr [22806, 31185, 31995, 32479]),
       (ascii ''wards'', PList [PStr [39592, 31185, 19968, 30149, 21306], PStr [39592, 31185,
           20108, 30149, 21306]]),
       (ascii ''bedCount'', PInt 80),
       (ascii ''specialRequirements'', PList [PStr [20851, 33410, 32622, 25442], PStr [33034,
           26609, 25163, 26415], PStr [21019, 20260, 20462, 22797]])])"

definition dept_CTS :: pyval where
  "dept_CTS =
    PDict (py_dict
      [(ascii ''departmentCode'', PStr (ascii ''CTS'')),
       (ascii ''departmentName'', PStr [24515, 33016, 22806, 31185]),
       (ascii ''aliases'', PList [PStr [33016, 22806, 31185], PStr [24515, 22806, 31185]]),
       (ascii ''category'', PStr [22806, 31185, 31995, 32479]),
       (ascii ''wards'', PList [PStr [24515, 33016, 22806, 31185, 30149, 21306]]),
       (ascii ''bedCount'', PInt 40),
       (ascii ''specialRequirements'', PList [PStr [24515, 33039, 25645, 26725], PStr [32954,
           21494, 20999, 38500], PStr [39135, 31649, 30284, 25163, 26415]])])"

definition dept_URO :: pyval where
  "dept_URO =
    PDict (py_dict
      [(ascii ''departmentCode'', PStr (ascii ''URO'')),
       (ascii ''departmentName'', PStr [27852, 23615, 22806, 31185]),
       (ascii ''aliases'', PList [PStr [27852, 22806]]),
       (ascii ''category'', PStr [22806, 31185, 31995, 32479]),
       (ascii ''wards'', PList [PStr [27852, 23615, 22806, 31185, 30149, 21306]]),
       (ascii ''bedCount'', PInt 45),
       (ascii ''specialRequirements'', PList [PStr [32958, 31227, 26893], PStr [33152, 33009,
           38236], PStr [21069, 21015, 33146, 25163, 26415]])])"

definition dept_NSURG :: pyval where
  "dept_NSURG =
    PDict (py_dict
      [(ascii ''departmentCode'', PStr (ascii ''NSURG'')),
       (ascii ''departmentName'', PStr [31070, 32463, 22806, 31185]),
       (ascii ''aliases'', PList [PStr [31070, 22806, 31185], PStr [31070, 22806]]),
       (ascii ''category'', PStr [22806, 31185, 31995, 32479]),
       (ascii ''wards'', PList [PStr [31070, 32463, 22806, 31185, 30149, 21306]]),
       (ascii ''bedCount'', PInt 50),
       (ascii ''specialRequirements'', PList [PStr [33041, 32959, 30244, 20999, 38500],
           PStr [33041, 34880, 31649, 20171, 20837], PStr [33034, 39635, 25163, 26415]])])"

definition dept_PLAST :: pyval where
  "dept_PLAST =
    PDict (py_dict
      [(ascii ''departmentCode'', PStr (ascii ''PLAST'')),
       (ascii ''departmentName'', PStr [28903, 20260, 25972, 24418, 31185]),
       (ascii ''aliases'', PList [PStr [25972, 24418, 22806, 31185]]),
       (ascii ''category'', PStr [22806, 31185, 31995, 32479]),
       (ascii ''wards'', PList [PStr [28903, 20260, 30149, 21306], PStr [25972, 24418, 30149,
           21306]]),
       (ascii ''bedCount'', PInt 30),
       (ascii ''specialRequirements'', PList [PStr [28903, 20260, 27835, 30103], PStr [30382,
           32932, 31227, 26893], PStr [32654, 23481, 25972, 24418]])])"

definition dept_OBGYN :: pyval where
  "dept_OBGYN =
    PDict (py_dict
      [(ascii ''departmentCode'', PStr (ascii ''OBGYN'')),
       (ascii ''departmentName'', PStr [22919, 20135, 31185]),
       (ascii ''aliases'', PList [PStr [22919, 31185], PStr [20135, 31185]]),
       (ascii ''category'', PStr [22919, 20135, 31185]),
       (ascii ''wards'', PList [PStr [22919, 31185, 30149, 21306], PStr [20135, 31185, 30149,
           21306]]),
       (ascii ''bedCount'', PInt 60),
       (ascii ''specialRequirements'', PList [PStr [20998, 23081], PStr [22919, 31185, 32959,
           30244, 25163, 26415], PStr [20135, 21069, 26816, 26597]])])"

definition dept_PED :: pyval where
  "dept_PED =
    PDict (py_dict
      [(ascii ''departmentCode'', PStr (ascii ''PED'')),
       (ascii ''departmentName'', PStr [20799, 31185]),
       (ascii ''aliases'', PList [PStr [20799, 20869, 31185], PStr [20799, 22806, 31185]]),
       (ascii ''category'', PStr [20799, 31185]),
       (ascii ''wards'', PList [PStr [20799, 31185, 30149, 21306], PStr [26032, 29983, 20799,
           30149, 21306]]),
       (ascii ''bedCount'', PInt 50),
       (ascii ''specialRequirements'', PList [PStr [20799, 31461, 24120, 35265, 30149],
           PStr [26032, 29983, 20799, 30417, 25252], PStr [20799, 31461, 20445, 20581]])])"

definition dept_OPHTH :: pyval where
  "dept_OPHTH =
    PDict (py_dict
      [(ascii ''departmentCode'', PStr (ascii ''OPHTH'')),
       (ascii ''departmentName'', PStr [30524, 31185]),
       (ascii ''aliases'', PList [PStr [30524, 32819, 40763, 21897, 31185]]),
       (ascii ''category'', PStr [20116, 23448, 31185]),
       (ascii ''wards'', PList [PStr [30524, 31185, 30149, 21306]]),
       (ascii ''bedCount'', PInt 25),
       (ascii ''specialRequirements'', PList [PStr [30333, 20869, 38556, 25163, 26415],
           PStr [30524, 24213, 26816, 26597], PStr [28608, 20809, 27835, 30103]])])"

definition dept_ENT :: pyval where
  "dept_ENT =
    PDict (py_dict
      [(ascii ''departmentCode'', PStr (ascii ''ENT'')),
       (ascii ''departmentName'', PStr [32819, 40763, 21693, 21897, 31185]),
       (ascii ''aliases'', PList [PStr [32819, 40763, 21897, 31185]]),
       (ascii ''category'', PStr [20116, 23448, 31185]),
       (ascii ''wards'', PList [PStr [32819, 40763, 21897, 31185, 30149, 21306]]),
       (ascii ''bedCount'', PInt 25),
       (ascii ''specialRequirements'', PList [PStr [21548, 21147, 26816, 26597], PStr [40763,
           20869, 38236, 25163, 26415], PStr [25153, 26691, 20307, 20999, 38500]])])"

definition dept_ORAL :: pyval where
  "dept_ORAL =
    PDict (py_dict
      [(ascii ''departmentCode'', PStr (ascii ''ORAL'')),
       (ascii ''departmentName'', PStr [21475, 33108, 31185]),
       (ascii ''aliases'', PList [PStr [21475, 33108, 39052, 38754, 22806, 31185]]),
       (ascii ''category'', PStr [20116, 23448, 31185]),
       (ascii ''wards'', PList [PStr [21475, 33108, 31185, 30149, 21306]]),
       (ascii ''bedCount'', PInt 20),
       (ascii ''specialRequirements'', PList [PStr [29273, 40831, 31181, 26893], PStr [39052,
           38754, 37096, 25163, 26415], PStr [21475, 33108, 20462, 22797]])])"

definition dept_DERM :: pyval where
  "dept_DERM =
    PDict (py_dict
      [(ascii ''departmentCode'', PStr (ascii ''DERM'')),
       (ascii ''departmentName'', PStr [30382, 32932, 31185]),
       (ascii ''aliases'', PList [PStr [30382, 32932, 24615, 30149, 31185]]),
       (ascii ''category'', PStr [20854, 20182]),
       (ascii ''wards'', PList [PStr [30382, 32932, 31185, 30149, 21306]]),
       (ascii ''bedCount'', PInt 15),
       (ascii ''specialRequirements'', PList [PStr [30382, 32932, 30149, 35786, 26029],
           PStr [28608, 20809, 27835, 30103], PStr [30382, 32932, 27963, 26816]])])"

definition dept_TCM :: pyval where
  "dept_TCM =
    PDict (py_dict
      [(ascii ''departmentCode'', PStr (ascii ''TCM'')),
       (ascii ''departmentName'', PStr [20013, 21307, 31185]),
       (ascii ''aliases'', PList [PStr [20013, 35199, 21307, 32467, 21512, 31185]]),
       (ascii ''category'', PStr [20854, 20182]),
       (ascii ''wards'', PList [PStr [20013, 21307, 31185, 30149, 21306]]),
       (ascii ''bedCount'', PInt 20),
       (ascii ''specialRequirements'', PList [PStr [20013, 21307, 36776, 35777], PStr [38024,
           28792], PStr [20013, 33647, 27835, 30103]])])"

definition dept_REHAB :: pyval where
  "dept_REHAB =
    PDict (py_dict
      [(ascii ''departmentCode'', PStr (ascii ''REHAB'')),
       (ascii ''departmentName'', PStr [24247, 22797, 21307, 23398, 31185]),
       (ascii ''aliases'', PList [PStr [24247, 22797, 31185]]),
       (ascii ''category'', PStr [20854, 20182]),
       (ascii ''wards'', PList [PStr [24247, 22797, 30149, 21306]]),
       (ascii ''bedCount'', PInt 30),
       (ascii ''specialRequirements'', PList [PStr [29289, 29702, 27835, 30103], PStr [20316,
           19994, 27835, 30103], PStr [35328, 35821, 27835, 30103]])])"

definition dept_ONCO :: pyval where
  "dept_ONCO =
    PDict (py_dict
      [(ascii ''departmentCode'', PStr (ascii ''ONCO'')),
       (ascii ''departmentName'', PStr [32959, 30244, 31185]),
       (ascii ''aliases'', PList [PStr [32959, 30244, 20869, 31185], PStr [32959, 30244, 22806,
           31185]]),
       (ascii ''category'', PStr [20854, 20182]),
       (ascii ''wards'', PList [PStr [32959, 30244, 19968, 30149, 21306], PStr [32959, 30244,
           20108, 30149, 21306]]),
       (ascii ''bedCount'', PInt 50),
       (ascii ''specialRequirements'', PList [PStr [21270, 30103], PStr [25918, 30103],
           PStr [38774, 21521, 27835, 30103]])])"

definition dept_GERI :: pyval where
  "dept_GERI =
    PDict (py_dict
      [(ascii ''departmentCode'', PStr (ascii ''GERI'')),
       (ascii ''departmentName'', PStr [32769, 24180, 21307, 23398, 31185]),
       (ascii ''aliases'', PList [PStr [32769, 24180, 31185]]),
       (ascii ''category'', PStr [20854, 20182]),
       (ascii ''wards'', PList [PStr [32769, 24180, 30149, 21306]]),
       (ascii ''bedCount'', PInt 30),
       (ascii ''specialRequirements'', PList [PStr [32769, 24180, 32508, 21512, 35780, 20272],
           PStr [22810, 37325, 29992, 33647, 31649, 29702]])])"

definition dept_PSYCH :: pyval where
  "dept_PSYCH =
    PDict (py_dict
      [(ascii ''departmentCode'', PStr (ascii ''PSYCH'')),
       (ascii ''departmentName'', PStr [31934, 31070, 21307, 23398, 31185]),
       (ascii ''aliases'', PList [PStr [31934, 31070, 31185]]),
       (ascii ''category'', PStr [20854, 20182]),
       (ascii ''wards'', PList [PStr [31934, 31070, 31185, 30149, 21306]]),
       (ascii ''bedCount'', PInt 40),
       (ascii ''specialRequirements'', PList [PStr [24515, 29702, 27835, 30103], PStr [33647,
           29289, 27835, 30103], PStr [30005, 20241, 20811, 27835, 30103]])])"

definition dept_ANESTH :: pyval where
  "dept_ANESTH =
    PDict (py_dict
      [(ascii ''departmentCode'', PStr (ascii ''ANESTH'')),
       (ascii ''departmentName'', PStr [40635, 37257, 31185]),
       (ascii ''aliases'', PList [PStr [40635, 37257]]),
       (ascii ''category'', PStr [20854, 20182]),
       (ascii ''wards'', PList [PStr [40635, 37257, 24674, 22797, 23460]]),
       (ascii ''bedCount'', PInt 10),
       (ascii ''specialRequirements'', PList [PStr [26415, 20013, 40635, 37257, 31649, 29702],
           PStr [30140, 30171, 31649, 29702]])])"

definition dept_PATH :: pyval where
  "dept_PATH =
    PDict (py_dict
      [(ascii ''departmentCode'', PStr (ascii ''PATH'')),
       (ascii ''departmentName'', PStr [30149, 29702, 31185]),
       (ascii ''aliases'', PList [PStr [30149, 29702]]),
       (ascii ''category'', PStr [20854, 20182]),
       (ascii ''wards'', PList []),
       (ascii ''bedCount'', PInt 0),
       (ascii ''specialRequirements'', PList [PStr [32452, 32455, 30149, 29702, 35786, 26029],
           PStr [32454, 32990, 23398, 35786, 26029]])])"

definition dept_RADI :: pyval where
  "dept_RADI =
    PDict (py_dict
      [(ascii ''departmentCode'', PStr (ascii ''RADI'')),
       (ascii ''departmentName'', PStr [25918, 23556, 31185]),
       (ascii ''aliases'', PList [PStr [24433, 20687, 31185]]),
       (ascii ''category'', PStr [20854, 20182]),
       (ascii ''wards'', PList []),
       (ascii ''bedCount'', PInt 0),
       (ascii ''specialRequirements'', PList [PStr (ascii ''X'' @ [32447]), PStr (ascii ''CT''),
           PStr (ascii ''MRI''), PStr [36229, 22768]])])"

definition dept_LAB :: pyval where
  "dept_LAB =
    PDict (py_dict
      [(ascii ''departmentCode'', PStr (ascii ''LAB'')),
       (ascii ''departmentName'', PStr [26816, 39564, 31185]),
       (ascii ''aliases'', PList [PStr [21270, 39564, 23460]]),
       (ascii ''category'', PStr [20854, 20182]),
       (ascii ''wards'', PList []),
       (ascii ''bedCount'', PInt 0),
       (ascii ''specialRequirements'', PList [PStr [34880, 28082, 26816, 39564], PStr [29983,
           21270, 26816, 39564], PStr [20813, 30123, 26816, 39564]])])"

definition d8_data :: "pyval list" where
  "d8_data =
    [dept_ICU, dept_ER, dept_CARD, dept_RESP, dept_GASTRO, dept_NEPHRO, dept_ENDO, dept_HEMA,
     dept_RHEUM, dept_NEURO, dept_INFECT, dept_GSURG, dept_ORTHO, dept_CTS, dept_URO,
     dept_NSURG, dept_PLAST, dept_OBGYN, dept_PED, dept_OPHTH, dept_ENT, dept_ORAL, dept_DERM,
     dept_TCM, dept_REHAB, dept_ONCO, dept_GERI, dept_PSYCH, dept_ANESTH, dept_PATH, dept_RADI,
     dept_LAB]"

definition d8_output_path :: pystr where
  "d8_output_path = ascii ''data/d8_department_mapping.json''"

text \<open>Lines 3-298: the generator.\<close>

definition generate_d8_department_mapping :: "world \<Rightarrow> error + world" where
  "generate_d8_department_mapping w =
     (case json_dump_to d8_output_path (PList d8_data) w of
        Inl e \<Rightarrow> Inl e
      | Inr w' \<Rightarrow>
          Inr (print (ascii ''Generated '' @ str_int (len d8_data)
                       @ ascii '' department mapping entries. Output saved to ''
                           @ d8_output_path) w'))"

section \<open>Reading the output\<close>

text \<open>The records of a list whose field \<open>key\<close> holds the value \<open>v\<close>, in the list's order.\<close>

definition records_with :: "pystr \<Rightarrow> pyval \<Rightarrow> pyval list \<Rightarrow> pyval list" where
  "records_with key v rs = filter (\<lambda>r. field r key = Some v) rs"

text \<open>The field \<open>key\<close> of each record of a list.\<close>

definition fields :: "pystr \<Rightarrow> pyval list \<Rightarrow> pyval option list" where
  "fields key rs = map (\<lambda>r. field r key) rs"

text \<open>The stage labels in the \<^verbatim>\<open>stages\<close> list of a staging record.\<close>

definition stage_labels :: "pyval \<Rightarrow> pyval option list" where
  "stage_labels r =
     (case field r (ascii ''stages'') of
        Some (PList ss) \<Rightarrow> fields (ascii ''stage'') ss
      | _ \<Rightarrow> [])"

text \<open>
  The staging output as the specification describes it: one record per
  (disease, stage-detail) pair, the diseases in the table's iteration order and, for each
  disease, the stage details in their authored order.
\<close>

definition stage_records :: "pystr \<Rightarrow> pystr \<Rightarrow> pystr \<Rightarrow> pystr \<Rightarrow> pyval list \<Rightarrow> pyval list" where
  "stage_records disease icd_code stagingSystem category stages =
     map (\<lambda>stage_info. staging_entry disease icd_code stagingSystem stage_info category) stages"

definition table_records :: "pystr \<Rightarrow> pystr \<Rightarrow> pyval list \<Rightarrow> (pystr \<times> pystr) list \<Rightarrow> pyval list" where
  "table_records stagingSystem category stages table =
     concat (map (\<lambda>(disease, icd_code).
       stage_records disease icd_code stagingSystem category stages) table)"

text \<open>The three generators with their output paths.\<close>

definition generators :: "((world \<Rightarrow> error + world) \<times> pystr) list" where
  "generators =
     [(generate_d2_soap_templates, d2_output_path),
      (generate_d6_disease_staging, d6_output_path),
      (generate_d8_department_mapping, d8_output_path)]"

text \<open>
  A world in which nothing has been written or printed and every file can be opened.
\<close>

definition fresh_world :: world where
  "fresh_world = \<lparr>files = (\<lambda>path. None), can_open = (\<lambda>path. True),
      stdout = []\<rparr>"

text \<open>The (disease, code) pairs of the staging loops, in the order of the loops.\<close>

definition d6_disease_codes :: "(pystr \<times> pystr) list" where
  "d6_disease_codes =
     items tnm_diseases
     @ items nyha_diseases
     @ items ckd_diseases
     @ [([24930, 24615, 38459, 22622, 24615, 32954, 30142, 30149], ascii ''J44'')]
     @ items child_pugh_diseases
     @ [([39640, 34880, 21387], ascii ''I10'')]
     @ [([39640, 34880, 21387], ascii ''I10'')]
     @ [([31958, 23615, 30149, 35270, 32593, 33180, 30149, 21464], ascii ''E10.3'')]
     @ [([31958, 23615, 30149, 32958, 30149], ascii ''E10.2'')]
     @ [([31958, 23615, 30149, 21608, 22260, 31070, 32463, 30149, 21464], ascii ''E10.4'')]
     @ [([28903, 20260], ascii ''T30'')]
     @ items ao_fractures
     @ [([32959, 30244, 24739, 32773, 19968, 33324, 29366, 20917], ascii ''Z08.8'')]
     @ [([24847, 35782, 38556, 30861], ascii ''R40.2'')]
     @ [([40635, 37257, 39118, 38505, 35780, 20272], ascii ''Z01.8'')]
     @ [([28040, 21270, 24615, 28291, 30113, 20986, 34880], ascii ''K27.4'')]
     @ [([33041, 21330, 20013, 21151, 33021, 39044, 21518], ascii ''I63'')]"

section \<open>Auxiliary facts\<close>

declare digits.simps [simp del]

lemma dict_set_fresh: "k \<notin> fst ` set d \<Longrightarrow> dict_set d k v = d @ [(k, v)]"
  by (induction d) auto

lemma dict_update_distinct:
  "distinct (map fst (d @ kvs)) \<Longrightarrow> dict_update d kvs = d @ kvs"
proof (induction kvs arbitrary: d)
  case Nil
  then show ?case by simp
next
  case (Cons kv kvs)
  obtain k v where kv: "kv = (k, v)" by (cases kv)
  from Cons.prems kv have fresh: "k \<notin> fst ` set d" by auto
  from Cons.prems kv have "distinct (map fst ((d @ [(k, v)]) @ kvs))" by simp
  then have "dict_update (d @ [(k, v)]) kvs = (d @ [(k, v)]) @ kvs" by (rule Cons.IH)
  with fresh kv show ?case by (simp add: dict_set_fresh)
qed

lemma py_dict_distinct: "distinct (map fst kvs) \<Longrightarrow> py_dict kvs = kvs"
  unfolding py_dict_def using dict_update_distinct [of "[]" kvs] by simp

lemma ascii_eq_iff: "ascii s = ascii t \<longleftrightarrow> s = t"
  unfolding ascii_def by (simp add: inj_map_eq_map inj_on_def)

lemma staging_entry_eq:
  "staging_entry disease icd_code stagingSystem stage_info category =
     PDict
       [(ascii ''disease'', PStr disease),
        (ascii ''icdCode'', PStr icd_code),
        (ascii ''stagingSystem'', PStr stagingSystem),
        (ascii ''stages'', PList [stage_info]),
        (ascii ''category'', PStr category)]"
  unfolding staging_entry_def by (simp add: py_dict_distinct ascii_eq_iff)

lemma field_staging_entry:
  "field (staging_entry d i s si c) (ascii ''disease'') = Some (PStr d)"
  "field (staging_entry d i s si c) (ascii ''icdCode'') = Some (PStr i)"
  "field (staging_entry d i s si c) (ascii ''stagingSystem'') = Some (PStr s)"
  "field (staging_entry d i s si c) (ascii ''stages'') = Some (PList [si])"
  "field (staging_entry d i s si c) (ascii ''category'') = Some (PStr c)"
  by (simp_all add: staging_entry_eq ascii_eq_iff)

lemma for_stage_info_eq:
  "for_stage_info d i s c stages data = data @ stage_records d i s c stages"
  unfolding stage_records_def by (induction stages arbitrary: data) simp_all

lemma for_disease_eq:
  "for_disease s c stages table data = data @ table_records s c stages table"
  unfolding table_records_def
  by (induction table arbitrary: data) (auto simp: for_stage_info_eq)

lemma d6_data_blocks:
  "d6_data =
     table_records (ascii ''TNM'') [32959, 30244, 20998, 26399]
         tnm_stages (items tnm_diseases)
     @ table_records (ascii ''NYHA'') [24515, 21151, 33021, 20998, 32423]
         nyha_stages (items nyha_diseases)
     @ table_records (ascii ''CKD'') [32958, 30149, 20998, 26399]
         ckd_stages (items ckd_diseases)
     @ stage_records [24930, 24615, 38459, 22622, 24615, 32954, 30142, 30149] (ascii ''J44'')
         (ascii ''GOLD'') [32954, 30149, 20998, 32423]
         gold_stages
     @ table_records (ascii ''Child-Pugh'') [32925, 30149, 20998, 32423]
         child_pugh_stages (items child_pugh_diseases)
     @ stage_records [39640, 34880, 21387] (ascii ''I10'')
         [20998, 32423] [24515, 34880, 31649, 20998, 32423]
         bp_grade_stages
     @ stage_records [39640, 34880, 21387] (ascii ''I10'')
         [21361, 38505, 20998, 23618] [24515, 34880, 31649, 20998, 32423]
         bp_risk_stages
     @ stage_records [31958, 23615, 30149, 35270, 32593, 33180, 30149, 21464] (ascii ''E10.3'')
         [20998, 26399] [31958, 23615, 30149, 24182, 21457, 30151, 20998, 26399]
         retinopathy_stages
     @ stage_records [31958, 23615, 30149, 32958, 30149] (ascii ''E10.2'')
         [20998, 26399] [31958, 23615, 30149, 24182, 21457, 30151, 20998, 26399]
         nephropathy_stages
     @ stage_records [31958, 23615, 30149, 21608, 22260, 31070, 32463, 30149,
         21464] (ascii ''E10.4'')
         [20998, 26399] [31958, 23615, 30149, 24182, 21457, 30151, 20998, 26399]
         neuropathy_stages
     @ stage_records [28903, 20260] (ascii ''T30'')
         [20998, 24230] [21019, 20260, 20998, 24230]
         burn_stages
     @ table_records (ascii ''AO'' @ [20998, 22411]) [39592, 25240, 20998, 22411]
         ao_stages (items ao_fractures)
     @ stage_records [32959, 30244, 24739, 32773, 19968, 33324, 29366, 20917] (ascii ''Z08.8'')
         (ascii ''ECOG PS'') [19968, 33324, 29366, 20917, 35780, 20998]
         ecog_stages
     @ stage_records [24847, 35782, 38556, 30861] (ascii ''R40.2'')
         (ascii ''GCS'') [31070, 32463, 21151, 33021, 35780, 20998]
         gcs_stages
     @ stage_records [40635, 37257, 39118, 38505, 35780, 20272] (ascii ''Z01.8'')
         (ascii ''ASA PS'') [40635, 37257, 39118, 38505, 35780, 20272]
         asa_stages
     @ stage_records [28040, 21270, 24615, 28291, 30113, 20986, 34880] (ascii ''K27.4'')
         (ascii ''Forrest'') [28040, 21270, 36947, 20986, 34880, 20998, 32423]
         forrest_stages
     @ stage_records [33041, 21330, 20013, 21151, 33021, 39044, 21518] (ascii ''I63'')
         (ascii ''mRS'') [31070, 32463, 21151, 33021, 35780, 20998]
         mrs_stages"
  unfolding d6_data_def Let_def by (simp only: for_disease_eq for_stage_info_eq append_Nil append_assoc)

lemma length_stage_records: "length (stage_records d i s c stages) = length stages"
  by (simp add: stage_records_def)

lemma length_table_records: "length (table_records s c stages table) = length table * length stages"
  unfolding table_records_def
  by (induction table) (auto simp: length_stage_records)

lemma length_d6_data:
  "length d6_data =
     length (items tnm_diseases) * length tnm_stages
     + length (items nyha_diseases) * length nyha_stages
     + length (items ckd_diseases) * length ckd_stages
     + length gold_stages
     + length (items child_pugh_diseases) * length child_pugh_stages
     + length bp_grade_stages
     + length bp_risk_stages
     + length retinopathy_stages
     + length nephropathy_stages
     + length neuropathy_stages
     + length burn_stages
     + length (items ao_fractures) * length ao_stages
     + length ecog_stages
     + length gcs_stages
     + length asa_stages
     + length forrest_stages
     + length mrs_stages"
  unfolding d6_data_blocks by (simp only: length_append length_stage_records length_table_records add.assoc)

lemma stage_records_codes:
  "\<forall>r\<in>set (stage_records d i s c stages). \<exists>p\<in>set [(d, i)].
     field r (ascii ''disease'') = Some (PStr (fst p)) \<and> field r (ascii ''icdCode'') = Some (PStr (snd p))"
  unfolding stage_records_def by (simp add: field_staging_entry)

lemma table_records_codes:
  "\<forall>r\<in>set (table_records s c stages table). \<exists>p\<in>set table.
     field r (ascii ''disease'') = Some (PStr (fst p)) \<and> field r (ascii ''icdCode'') = Some (PStr (snd p))"
  unfolding table_records_def stage_records_def by (force simp: field_staging_entry)

lemma append_codes:
  assumes "\<forall>r\<in>set xs. \<exists>p\<in>set ps. Q r p" and "\<forall>r\<in>set ys. \<exists>p\<in>set qs. Q r p"
  shows "\<forall>r\<in>set (xs @ ys). \<exists>p\<in>set (ps @ qs). Q r p"
  using assms by auto

lemma d6_data_codes:
  "\<forall>r\<in>set d6_data. \<exists>p\<in>set d6_disease_codes.
     field r (ascii ''disease'') = Some (PStr (fst p)) \<and> field r (ascii ''icdCode'') = Some (PStr (snd p))"
  unfolding d6_data_blocks d6_disease_codes_def
  by (intro append_codes stage_records_codes table_records_codes)

lemma tables_length:
  "length (items tnm_diseases) = 15"
  "length (items nyha_diseases) = 3"
  "length (items ckd_diseases) = 3"
  "length (items child_pugh_diseases) = 2"
  "length (items ao_fractures) = 15"
  unfolding items_def tnm_diseases_def nyha_diseases_def ckd_diseases_def
    child_pugh_diseases_def ao_fractures_def
  by (simp_all add: py_dict_distinct ascii_def)

lemma stages_length:
  "length tnm_stages = 4" "length nyha_stages = 4" "length ckd_stages = 5"
  "length gold_stages = 4" "length child_pugh_stages = 3" "length bp_grade_stages = 3"
  "length bp_risk_stages = 4" "length retinopathy_stages = 3" "length nephropathy_stages = 5"
  "length neuropathy_stages = 3" "length burn_stages = 4" "length ao_stages = 3"
  "length ecog_stages = 5" "length gcs_stages = 3" "length asa_stages = 6"
  "length forrest_stages = 6" "length mrs_stages = 7"
  unfolding tnm_stages_def nyha_stages_def ckd_stages_def gold_stages_def child_pugh_stages_def
    bp_grade_stages_def bp_risk_stages_def retinopathy_stages_def nephropathy_stages_def
    neuropathy_stages_def burn_stages_def ao_stages_def ecog_stages_def gcs_stages_def
    asa_stages_def forrest_stages_def mrs_stages_def
  by simp_all

lemma d6_count: "length d6_data = 191"
  unfolding length_d6_data by (simp add: tables_length stages_length)


lemma d6_disease_codes_distinct:
  "distinct (map fst (remdups d6_disease_codes))"
  unfolding d6_disease_codes_def items_def tnm_diseases_def nyha_diseases_def ckd_diseases_def
    child_pugh_diseases_def ao_fractures_def
  by (simp add: py_dict_distinct ascii_eq_iff)

lemma d6_disease_codes_functional:
  assumes "p \<in> set d6_disease_codes" and "q \<in> set d6_disease_codes" and "fst p = fst q"
  shows "snd p = snd q"
proof -
  obtain d i j where pq: "p = (d, i)" "q = (d, j)"
    using assms(3) by (cases p, cases q) simp
  with assms have "(d, i) \<in> set (remdups d6_disease_codes)"
    and "(d, j) \<in> set (remdups d6_disease_codes)"
    by simp_all
  with d6_disease_codes_distinct have "i = j"
    by (rule eq_key_imp_eq_value)
  with pq show ?thesis by simp
qed

lemma stage_records_stages:
  "\<forall>r\<in>set (stage_records d i s c stages).
     \<exists>ss. field r (ascii ''stages'') = Some (PList ss) \<and> length ss = 1"
  unfolding stage_records_def by (simp add: field_staging_entry)

lemma table_records_stages:
  "\<forall>r\<in>set (table_records s c stages table).
     \<exists>ss. field r (ascii ''stages'') = Some (PList ss) \<and> length ss = 1"
  unfolding table_records_def stage_records_def by (auto simp: field_staging_entry)

lemma records_with_append:
  "records_with k v (xs @ ys) = records_with k v xs @ records_with k v ys"
  by (simp add: records_with_def)

lemma records_with_disease_stage_records:
  "records_with (ascii ''disease'') (PStr x) (stage_records d i s c stages) =
     (if d = x then stage_records d i s c stages else [])"
  unfolding records_with_def stage_records_def
  by (simp add: filter_map o_def field_staging_entry)

lemma records_with_system_stage_records:
  "records_with (ascii ''stagingSystem'') (PStr x) (stage_records d i s c stages) =
     (if s = x then stage_records d i s c stages else [])"
  unfolding records_with_def stage_records_def
  by (simp add: filter_map o_def field_staging_entry)

lemma table_records_simps:
  "table_records s c stages [] = []"
  "table_records s c stages ((d, i) # table) =
     stage_records d i s c stages @ table_records s c stages table"
  by (simp_all add: table_records_def)

lemma nyha_records:
  "records_with (ascii ''disease'') (PStr [24515, 21147, 34928, 31469]) d6_data =
     stage_records [24515, 21147, 34928, 31469] (ascii ''I50'') (ascii ''NYHA'')
       [24515, 21151, 33021, 20998, 32423] nyha_stages"
  unfolding d6_data_blocks items_def tnm_diseases_def nyha_diseases_def ckd_diseases_def
    child_pugh_diseases_def ao_fractures_def
  by (simp add: py_dict_distinct ascii_eq_iff records_with_append table_records_simps
      records_with_disease_stage_records)

lemma stage_labels_staging_entry:
  "stage_labels (staging_entry d i s si c) = [field si (ascii ''stage'')]"
  by (simp add: stage_labels_def field_staging_entry fields_def)

lemma nyha_labels:
  "map stage_labels (stage_records d i s c nyha_stages) =
     [[Some (PStr (ascii ''I'' @ [32423]))], [Some (PStr (ascii ''II'' @ [32423]))],
      [Some (PStr (ascii ''III'' @ [32423]))], [Some (PStr (ascii ''IV'' @ [32423]))]]"
  unfolding stage_records_def nyha_stages_def
  by (simp add: stage_labels_staging_entry py_dict_distinct ascii_eq_iff)

lemma fields_icd_stage_records:
  "fields (ascii ''icdCode'') (stage_records d i s c stages) = map (\<lambda>si. Some (PStr i)) stages"
  unfolding fields_def stage_records_def by (simp add: field_staging_entry o_def)


lemma startswith_iff: "startswith s p \<longleftrightarrow> (\<exists>q. s = p @ q)"
  by (induction s p rule: startswith.induct) auto

lemma str_contains_iff: "str_contains s sub \<longleftrightarrow> (\<exists>p q. s = p @ sub @ q)"
proof (induction s)
  case Nil
  then show ?case by (simp add: startswith_iff)
next
  case (Cons a s)
  show ?case
  proof
    assume "str_contains (a # s) sub"
    then consider "startswith (a # s) sub" | "str_contains s sub" by auto
    then show "\<exists>p q. a # s = p @ sub @ q"
    proof cases
      case 1
      then obtain q where "a # s = sub @ q" by (auto simp: startswith_iff)
      then have "a # s = [] @ sub @ q" by simp
      then show ?thesis by blast
    next
      case 2
      with Cons.IH obtain p q where "s = p @ sub @ q" by blast
      then have "a # s = (a # p) @ sub @ q" by simp
      then show ?thesis by blast
    qed
  next
    assume "\<exists>p q. a # s = p @ sub @ q"
    then obtain p q where pq: "a # s = p @ sub @ q" by blast
    show "str_contains (a # s) sub"
    proof (cases p)
      case Nil
      with pq have "startswith (a # s) sub" by (auto simp: startswith_iff)
      then show ?thesis by simp
    next
      case (Cons b p')
      with pq have "s = p' @ sub @ q" by simp
      with Cons.IH have "str_contains s sub" by blast
      then show ?thesis by simp
    qed
  qed
qed

lemma diseases_nonempty: "\<forall>d\<in>set diseases. d \<noteq> []"
  unfolding diseases_def by (simp add: ascii_def)

lemma diseases_distinct: "distinct diseases"
  unfolding diseases_def by (simp add: ascii_def)

lemma length_diseases: "length diseases = 30"
  unfolding diseases_def by simp

lemma str_getitem_0: "d \<noteq> [] \<Longrightarrow> str_getitem d 0 = Inr [hd d]"
  by (cases d) (simp_all add: str_getitem_def len_def)

lemma soap_template_Inr: "d \<noteq> [] \<Longrightarrow> soap_template d = Inr (projr (soap_template d))"
  by (simp add: soap_template_def str_getitem_0)

lemma soap_template_Inl: "soap_template [] = Inl IndexError"
  by (simp add: soap_template_def str_getitem_def len_def)

lemma field_soap_template:
  assumes "d \<noteq> []"
  shows "field (projr (soap_template d)) (ascii ''disease'') = Some (PStr d)"
    and "field (projr (soap_template d)) (ascii ''icdCode'') =
           Some (PStr (ascii ''ICD-'' @ [hd d] @ str_int (len d)))"
    and "field (projr (soap_template d)) (ascii ''subjective'') =
           Some (PStr (d @ [30456, 20851, 20027, 35785, 65306, 20363, 22914, 22836, 26197, 12289,
             22836, 30171, 12289, 20047, 21147, 31561, 65292, 25345, 32493] @ ascii ''X''
                 @ [22825]
             @ ascii ''/'' @ [26376] @ ascii ''/'' @ [24180] @ ascii ''...''))"
  unfolding soap_template_def
  by (simp_all add: str_getitem_0 [OF assms] py_dict_distinct ascii_eq_iff)

lemma soap_loop_eq:
  "\<forall>d\<in>set ds. d \<noteq> [] \<Longrightarrow>
     soap_loop ds acc = Inr (acc @ map (\<lambda>d. projr (soap_template d)) ds)"
proof (induction ds arbitrary: acc)
  case Nil
  then show ?case by simp
next
  case (Cons d ds)
  from Cons.prems have "d \<noteq> []" by simp
  then have "soap_template d = Inr (projr (soap_template d))"
    by (rule soap_template_Inr)
  then obtain r where r: "soap_template d = Inr r" and pr: "projr (soap_template d) = r"
    by simp
  from Cons.prems have "\<forall>d\<in>set ds. d \<noteq> []" by simp
  then have "soap_loop ds (acc @ [r]) = Inr ((acc @ [r])
      @ map (\<lambda>d. projr (soap_template d)) ds)"
    by (rule Cons.IH)
  with r pr show ?case by simp
qed

lemma soap_templates_eq:
  "soap_templates = Inr (map (\<lambda>d. projr (soap_template d)) diseases)"
  unfolding soap_templates_def using soap_loop_eq [OF diseases_nonempty, of "[]"] by simp

lemma fields_disease_soap:
  "\<forall>d\<in>set ds. d \<noteq> [] \<Longrightarrow>
     fields (ascii ''disease'') (map (\<lambda>d. projr (soap_template d)) ds) = map (\<lambda>d. Some (PStr d)) ds"
  unfolding fields_def by (simp add: field_soap_template)

lemma records_with_disease_soap:
  "\<forall>d\<in>set ds. d \<noteq> [] \<Longrightarrow>
     records_with (ascii ''disease'') (PStr x) (map (\<lambda>d. projr (soap_template d)) ds) =
       map (\<lambda>d. projr (soap_template d)) (filter (\<lambda>d. d = x) ds)"
  unfolding records_with_def by (induction ds) (simp_all add: field_soap_template)

lemma filter_gxy: "filter (\<lambda>d. d = [39640, 34880, 21387]) diseases = [[39640, 34880,
    21387]]"
  unfolding diseases_def by (simp add: ascii_def)

lemma gxy_icd: "field (projr (soap_template [39640, 34880, 21387])) (ascii ''icdCode'') =
   Some (PStr (ascii ''ICD-'' @ [39640] @ ascii ''3''))"
  using field_soap_template(2) [of "[39640, 34880, 21387]"]
  by (simp add: len_def str_int_def digits.simps ascii_def)

lemma gxy_subjective:
  "\<exists>s. field (projr (soap_template [39640, 34880,
      21387])) (ascii ''subjective'') = Some (PStr s)
     \<and> str_contains s [39640, 34880, 21387, 30456, 20851, 20027, 35785]"
  using field_soap_template(3) [of "[39640, 34880, 21387]"]
  by simp

lemma soap_mem:
  "d \<in> set diseases \<Longrightarrow> projr (soap_template d) \<in> set (map (\<lambda>d. projr (soap_template d)) diseases)"
  by simp

lemma fei_mem: "[32954, 28814] \<in> set diseases" "[32954, 30284] \<in> set diseases"
  unfolding diseases_def by simp_all

lemma fei_icd:
  "field (projr (soap_template [32954, 28814])) (ascii ''icdCode'') =
     Some (PStr (ascii ''ICD-'' @ [32954] @ ascii ''2''))"
  "field (projr (soap_template [32954, 30284])) (ascii ''icdCode'') =
     Some (PStr (ascii ''ICD-'' @ [32954] @ ascii ''2''))"
  using field_soap_template(2) [of "[32954, 28814]"] field_soap_template(2) [of "[32954, 30284]"]
  by (simp_all add: len_def str_int_def digits.simps ascii_def)


lemma length_d8_data: "length d8_data = 32"
  unfolding d8_data_def by simp

lemma d8_department_codes:
  "fields (ascii ''departmentCode'') d8_data =
     map (\<lambda>c. Some (PStr (ascii c)))
      [''ICU'', ''ER'', ''CARD'', ''RESP'', ''GASTRO'', ''NEPHRO'', ''ENDO'', ''HEMA'',
       ''RHEUM'', ''NEURO'', ''INFECT'', ''GSURG'', ''ORTHO'', ''CTS'', ''URO'', ''NSURG'',
       ''PLAST'', ''OBGYN'', ''PED'', ''OPHTH'', ''ENT'', ''ORAL'', ''DERM'', ''TCM'',
       ''REHAB'', ''ONCO'', ''GERI'', ''PSYCH'', ''ANESTH'', ''PATH'', ''RADI'', ''LAB'']"
  unfolding fields_def d8_data_def
    dept_ICU_def dept_ER_def dept_CARD_def dept_RESP_def dept_GASTRO_def dept_NEPHRO_def
    dept_ENDO_def dept_HEMA_def dept_RHEUM_def dept_NEURO_def dept_INFECT_def dept_GSURG_def
    dept_ORTHO_def dept_CTS_def dept_URO_def dept_NSURG_def dept_PLAST_def dept_OBGYN_def
    dept_PED_def dept_OPHTH_def dept_ENT_def dept_ORAL_def dept_DERM_def dept_TCM_def
    dept_REHAB_def dept_ONCO_def dept_GERI_def dept_PSYCH_def dept_ANESTH_def dept_PATH_def
    dept_RADI_def dept_LAB_def
  by (simp add: py_dict_distinct ascii_eq_iff)

lemma d8_codes_distinct: "distinct (fields (ascii ''departmentCode'') d8_data)"
  unfolding d8_department_codes by (simp add: distinct_map inj_on_def ascii_eq_iff)


lemma json_dump_to_Inr:
  "json_dump_to path v w = Inr w' \<Longrightarrow> files w' path = Some v \<and> can_open w' = can_open w"
  by (auto simp: json_dump_to_def split: if_splits)

lemma json_dump_to_can_open:
  "can_open w path \<Longrightarrow> json_dump_to path v w = Inr (w\<lparr>files := (files w)(path \<mapsto> v)\<rparr>)"
  by (simp add: json_dump_to_def)

lemma print_simps: "files (print line w) = files w" "can_open (print line w) = can_open w"
  by (simp_all add: print_def)

lemma generate_d2_Inr:
  assumes "generate_d2_soap_templates w = Inr w'"
  shows "files w' d2_output_path = Some (PList (map (\<lambda>d. projr (soap_template d)) diseases))
     \<and> can_open w' = can_open w"
  using assms unfolding generate_d2_soap_templates_def soap_templates_eq
  by (auto simp: print_simps split: sum.splits dest: json_dump_to_Inr)

lemma generate_d6_Inr:
  assumes "generate_d6_disease_staging w = Inr w'"
  shows "files w' d6_output_path = Some (PList d6_data) \<and> can_open w' = can_open w"
  using assms unfolding generate_d6_disease_staging_def
  by (auto simp: print_simps split: sum.splits dest: json_dump_to_Inr)

lemma generate_d8_Inr:
  assumes "generate_d8_department_mapping w = Inr w'"
  shows "files w' d8_output_path = Some (PList d8_data) \<and> can_open w' = can_open w"
  using assms unfolding generate_d8_department_mapping_def
  by (auto simp: print_simps split: sum.splits dest: json_dump_to_Inr)

lemma generate_d2_succeeds:
  "can_open w d2_output_path \<Longrightarrow> \<exists>w'. generate_d2_soap_templates w = Inr w'"
  unfolding generate_d2_soap_templates_def soap_templates_eq
  by (simp add: json_dump_to_can_open)

lemma generate_d6_succeeds:
  "can_open w d6_output_path \<Longrightarrow> \<exists>w'. generate_d6_disease_staging w = Inr w'"
  unfolding generate_d6_disease_staging_def by (simp add: json_dump_to_can_open)

lemma generate_d8_succeeds:
  "can_open w d8_output_path \<Longrightarrow> \<exists>w'. generate_d8_department_mapping w = Inr w'"
  unfolding generate_d8_department_mapping_def by (simp add: json_dump_to_can_open)

lemma generate_fails:
  "\<not> can_open w d2_output_path \<Longrightarrow> generate_d2_soap_templates w = Inl OSError"
  "\<not> can_open w d6_output_path \<Longrightarrow> generate_d6_disease_staging w = Inl OSError"
  "\<not> can_open w d8_output_path \<Longrightarrow> generate_d8_department_mapping w = Inl OSError"
  unfolding generate_d2_soap_templates_def soap_templates_eq generate_d6_disease_staging_def
    generate_d8_department_mapping_def
  by (simp_all add: json_dump_to_def)

lemma Inr_projr: "\<exists>y. x = Inr y \<Longrightarrow> x = Inr (projr x)"
  by auto


lemma nyha_items:
  "map fst (items nyha_diseases) =
     [[24515, 21147, 34928, 31469], [39118, 28287, 24615, 24515, 33039, 30149],
      [25193, 24352, 22411, 24515, 32908, 30149]]"
  unfolding items_def nyha_diseases_def by (simp add: py_dict_distinct)

lemma bp_records:
  "d6_data ! 97 = staging_entry [39640, 34880, 21387] (ascii ''I10'') [20998, 32423]
      (bp_grade_stages ! 0) [24515, 34880, 31649, 20998, 32423]"
  "d6_data ! 100 = staging_entry [39640, 34880, 21387] (ascii ''I10'') [21361, 38505, 20998,
      23618]
      (bp_risk_stages ! 0) [24515, 34880, 31649, 20998, 32423]"
  unfolding d6_data_blocks
  by (simp_all add: nth_append length_table_records length_stage_records tables_length
      stages_length) (simp_all add: stage_records_def stages_length)


lemma soap_templates_projr: "projr soap_templates = map (\<lambda>d. projr (soap_template d)) diseases"
  by (simp add: soap_templates_eq)

lemma records_gxy:
  "records_with (ascii ''disease'') (PStr [39640, 34880, 21387])
      (map (\<lambda>d. projr (soap_template d)) diseases) = [projr (soap_template [39640, 34880,
          21387])]"
  by (simp add: records_with_disease_soap [OF diseases_nonempty] filter_gxy)

section \<open>The claims\<close>

subsection \<open>The SOAP template generator\<close>

text \<open>
  Claim C1, as amended. The disease name U+9AD8 U+8840 U+538B (hypertension) has three
  code points, so the loop yields exactly one record for it, whose \<^verbatim>\<open>icdCode\<close> is
  \<^verbatim>\<open>ICD-\<close>, U+9AD8 and the digit 3, and whose \<^verbatim>\<open>subjective\<close> text contains the name
  followed by U+76F8 U+5173 U+4E3B U+8BC9.
\<close>

theorem soap_hypertension_record:
  "\<exists>ts r s. soap_templates = Inr ts
     \<and> records_with (ascii ''disease'') (PStr [39640, 34880, 21387]) ts = [r]
     \<and> field r (ascii ''icdCode'') = Some (PStr (ascii ''ICD-'' @ [39640] @ ascii ''3''))
     \<and> field r (ascii ''subjective'') = Some (PStr s)
     \<and> str_contains s [39640, 34880, 21387, 30456, 20851, 20027, 35785]"
  using gxy_subjective by (auto simp: soap_templates_eq records_gxy gxy_icd)

text \<open>
  The name has length 3, and the \<^verbatim>\<open>icdCode\<close> of its only record ends in the digit 3, not in
  the digit 2.
\<close>

theorem soap_hypertension_code_counterexample:
  "len [39640, 34880, 21387 :: nat] = 3
   \<and> fields (ascii ''icdCode'')
        (records_with (ascii ''disease'') (PStr [39640, 34880, 21387]) (projr soap_templates)) =
       [Some (PStr (ascii ''ICD-'' @ [39640] @ ascii ''3''))]
   \<and> fields (ascii ''icdCode'')
        (records_with (ascii ''disease'') (PStr [39640, 34880,
            21387]) (projr soap_templates)) \<noteq>
       [Some (PStr (ascii ''ICD-'' @ [39640] @ ascii ''2''))]"
  unfolding soap_templates_projr records_gxy
  by (simp add: fields_def gxy_icd len_def ascii_eq_iff)

text \<open>
  Claim C6. The loop returns one record per disease name: as many records as names, the
  \<^verbatim>\<open>disease\<close> fields of the records are the names of the input list in the list's order,
  and no \<^verbatim>\<open>disease\<close> field occurs twice.
\<close>

theorem soap_one_record_per_disease:
  "\<exists>ts. soap_templates = Inr ts
     \<and> length ts = length diseases
     \<and> fields (ascii ''disease'') ts = map (\<lambda>disease. Some (PStr disease)) diseases
     \<and> distinct (fields (ascii ''disease'') ts)"
  by (simp add: soap_templates_eq fields_disease_soap [OF diseases_nonempty] distinct_map
      diseases_distinct inj_on_def)

text \<open>
  Claim C10. The derived \<^verbatim>\<open>icdCode\<close> is not unique: the records of U+80BA U+708E (pneumonia)
  and U+80BA U+764C (lung cancer) have different \<^verbatim>\<open>disease\<close> fields and the same
  \<^verbatim>\<open>icdCode\<close>, \<^verbatim>\<open>ICD-\<close> followed by U+80BA and the digit 2.
\<close>

theorem soap_icdCode_not_unique:
  "\<exists>ts r1 r2. soap_templates = Inr ts \<and> r1 \<in> set ts \<and> r2 \<in> set ts
     \<and> field r1 (ascii ''disease'') = Some (PStr [32954, 28814])
     \<and> field r2 (ascii ''disease'') = Some (PStr [32954, 30284])
     \<and> field r1 (ascii ''disease'') \<noteq> field r2 (ascii ''disease'')
     \<and> field r1 (ascii ''icdCode'') = Some (PStr (ascii ''ICD-'' @ [32954] @ ascii ''2''))
     \<and> field r2 (ascii ''icdCode'') = Some (PStr (ascii ''ICD-'' @ [32954] @ ascii ''2''))"
proof -
  let ?r1 = "projr (soap_template [32954, 28814])"
  let ?r2 = "projr (soap_template [32954, 30284])"
  let ?ts = "map (\<lambda>d. projr (soap_template d)) diseases"
  have "?r1 \<in> set ?ts" and "?r2 \<in> set ?ts"
    using fei_mem by (simp_all add: image_iff) blast+
  moreover have "field ?r1 (ascii ''disease'') = Some (PStr [32954, 28814])"
    and "field ?r2 (ascii ''disease'') = Some (PStr [32954, 30284])"
    by (simp_all add: field_soap_template)
  moreover have "soap_templates = Inr ?ts" by (rule soap_templates_eq)
  ultimately show ?thesis using fei_icd
    by (intro exI [of _ ?ts] exI [of _ ?r1] exI [of _ ?r2]) simp
qed

subsection \<open>The disease staging generator\<close>

text \<open>
  Claim C4. Every record of the staging output has a \<^verbatim>\<open>stages\<close> list of length exactly 1.
\<close>

theorem staging_stages_length_one:
  "\<forall>r\<in>set d6_data. \<exists>ss. field r (ascii ''stages'') = Some (PList ss) \<and> length ss = 1"
  unfolding d6_data_blocks set_append ball_Un
  by (intro conjI stage_records_stages table_records_stages)

text \<open>
  The first record of the hypertension grading loop (index 97) is such a record.
\<close>

theorem staging_stages_length_one_witness:
  "d6_data ! 97 \<in> set d6_data
   \<and> field (d6_data ! 97) (ascii ''disease'') = Some (PStr [39640, 34880, 21387])
   \<and> (\<exists>ss. field (d6_data ! 97) (ascii ''stages'') = Some (PList ss) \<and> length ss = 1)"
proof -
  have m: "d6_data ! 97 \<in> set d6_data" by (simp add: d6_count)
  from staging_stages_length_one [THEN bspec, OF m] m show ?thesis
    by (simp add: bp_records field_staging_entry)
qed

text \<open>
  Claim C7. The staging output is, loop after loop in the order of the source, one record
  per (disease, stage-detail) pair, the diseases in the iteration order of their table and
  the stage details of each disease in their authored order. For heart failure
  (U+5FC3 U+529B U+8870 U+7AED) under \<^verbatim>\<open>NYHA\<close> the output holds exactly four records, with the
  stage labels I, II, III, IV (each followed by U+7EA7) in that order and the code
  \<^verbatim>\<open>I50\<close> in each.
\<close>

theorem staging_order:
  "d6_data =
     table_records (ascii ''TNM'') [32959, 30244, 20998, 26399]
         tnm_stages (items tnm_diseases)
     @ table_records (ascii ''NYHA'') [24515, 21151, 33021, 20998, 32423]
         nyha_stages (items nyha_diseases)
     @ table_records (ascii ''CKD'') [32958, 30149, 20998, 26399]
         ckd_stages (items ckd_diseases)
     @ stage_records [24930, 24615, 38459, 22622, 24615, 32954, 30142, 30149] (ascii ''J44'')
         (ascii ''GOLD'') [32954, 30149, 20998, 32423]
         gold_stages
     @ table_records (ascii ''Child-Pugh'') [32925, 30149, 20998, 32423]
         child_pugh_stages (items child_pugh_diseases)
     @ stage_records [39640, 34880, 21387] (ascii ''I10'')
         [20998, 32423] [24515, 34880, 31649, 20998, 32423]
         bp_grade_stages
     @ stage_records [39640, 34880, 21387] (ascii ''I10'')
         [21361, 38505, 20998, 23618] [24515, 34880, 31649, 20998, 32423]
         bp_risk_stages
     @ stage_records [31958, 23615, 30149, 35270, 32593, 33180, 30149, 21464] (ascii ''E10.3'')
         [20998, 26399] [31958, 23615, 30149, 24182, 21457, 30151, 20998, 26399]
         retinopathy_stages
     @ stage_records [31958, 23615, 30149, 32958, 30149] (ascii ''E10.2'')
         [20998, 26399] [31958, 23615, 30149, 24182, 21457, 30151, 20998, 26399]
         nephropathy_stages
     @ stage_records [31958, 23615, 30149, 21608, 22260, 31070, 32463, 30149,
         21464] (ascii ''E10.4'')
         [20998, 26399] [31958, 23615, 30149, 24182, 21457, 30151, 20998, 26399]
         neuropathy_stages
     @ stage_records [28903, 20260] (ascii ''T30'')
         [20998, 24230] [21019, 20260, 20998, 24230]
         burn_stages
     @ table_records (ascii ''AO'' @ [20998, 22411]) [39592, 25240, 20998, 22411]
         ao_stages (items ao_fractures)
     @ stage_records [32959, 30244, 24739, 32773, 19968, 33324, 29366, 20917] (ascii ''Z08.8'')
         (ascii ''ECOG PS'') [19968, 33324, 29366, 20917, 35780, 20998]
         ecog_stages
     @ stage_records [24847, 35782, 38556, 30861] (ascii ''R40.2'')
         (ascii ''GCS'') [31070, 32463, 21151, 33021, 35780, 20998]
         gcs_stages
     @ stage_records [40635, 37257, 39118, 38505, 35780, 20272] (ascii ''Z01.8'')
         (ascii ''ASA PS'') [40635, 37257, 39118, 38505, 35780, 20272]
         asa_stages
     @ stage_records [28040, 21270, 24615, 28291, 30113, 20986, 34880] (ascii ''K27.4'')
         (ascii ''Forrest'') [28040, 21270, 36947, 20986, 34880, 20998, 32423]
         forrest_stages
     @ stage_records [33041, 21330, 20013, 21151, 33021, 39044, 21518] (ascii ''I63'')
         (ascii ''mRS'') [31070, 32463, 21151, 33021, 35780, 20998]
         mrs_stages
   \<and> map fst (items nyha_diseases) =
       [[24515, 21147, 34928, 31469], [39118, 28287, 24615, 24515, 33039, 30149],
        [25193, 24352, 22411, 24515, 32908, 30149]]
   \<and> map stage_labels
        (records_with (ascii ''stagingSystem'') (PStr (ascii ''NYHA''))
          (records_with (ascii ''disease'') (PStr [24515, 21147, 34928, 31469]) d6_data)) =
       [[Some (PStr (ascii ''I'' @ [32423]))], [Some (PStr (ascii ''II'' @ [32423]))],
        [Some (PStr (ascii ''III'' @ [32423]))], [Some (PStr (ascii ''IV'' @ [32423]))]]
   \<and> fields (ascii ''icdCode'')
        (records_with (ascii ''stagingSystem'') (PStr (ascii ''NYHA''))
          (records_with (ascii ''disease'') (PStr [24515, 21147, 34928, 31469]) d6_data)) =
       [Some (PStr (ascii ''I50'')), Some (PStr (ascii ''I50'')), Some (PStr (ascii ''I50'')),
        Some (PStr (ascii ''I50''))]"
proof (intro conjI)
  show "d6_data =
     table_records (ascii ''TNM'') [32959, 30244, 20998, 26399]
         tnm_stages (items tnm_diseases)
     @ table_records (ascii ''NYHA'') [24515, 21151, 33021, 20998, 32423]
         nyha_stages (items nyha_diseases)
     @ table_records (ascii ''CKD'') [32958, 30149, 20998, 26399]
         ckd_stages (items ckd_diseases)
     @ stage_records [24930, 24615, 38459, 22622, 24615, 32954, 30142, 30149] (ascii ''J44'')
         (ascii ''GOLD'') [32954, 30149, 20998, 32423]
         gold_stages
     @ table_records (ascii ''Child-Pugh'') [32925, 30149, 20998, 32423]
         child_pugh_stages (items child_pugh_diseases)
     @ stage_records [39640, 34880, 21387] (ascii ''I10'')
         [20998, 32423] [24515, 34880, 31649, 20998, 32423]
         bp_grade_stages
     @ stage_records [39640, 34880, 21387] (ascii ''I10'')
         [21361, 38505, 20998, 23618] [24515, 34880, 31649, 20998, 32423]
         bp_risk_stages
     @ stage_records [31958, 23615, 30149, 35270, 32593, 33180, 30149, 21464] (ascii ''E10.3'')
         [20998, 26399] [31958, 23615, 30149, 24182, 21457, 30151, 20998, 26399]
         retinopathy_stages
     @ stage_records [31958, 23615, 30149, 32958, 30149] (ascii ''E10.2'')
         [20998, 26399] [31958, 23615, 30149, 24182, 21457, 30151, 20998, 26399]
         nephropathy_stages
     @ stage_records [31958, 23615, 30149, 21608, 22260, 31070, 32463, 30149,
         21464] (ascii ''E10.4'')
         [20998, 26399] [31958, 23615, 30149, 24182, 21457, 30151, 20998, 26399]
         neuropathy_stages
     @ stage_records [28903, 20260] (ascii ''T30'')
         [20998, 24230] [21019, 20260, 20998, 24230]
         burn_stages
     @ table_records (ascii ''AO'' @ [20998, 22411]) [39592, 25240, 20998, 22411]
         ao_stages (items ao_fractures)
     @ stage_records [32959, 30244, 24739, 32773, 19968, 33324, 29366, 20917] (ascii ''Z08.8'')
         (ascii ''ECOG PS'') [19968, 33324, 29366, 20917, 35780, 20998]
         ecog_stages
     @ stage_records [24847, 35782, 38556, 30861] (ascii ''R40.2'')
         (ascii ''GCS'') [31070, 32463, 21151, 33021, 35780, 20998]
         gcs_stages
     @ stage_records [40635, 37257, 39118, 38505, 35780, 20272] (ascii ''Z01.8'')
         (ascii ''ASA PS'') [40635, 37257, 39118, 38505, 35780, 20272]
         asa_stages
     @ stage_records [28040, 21270, 24615, 28291, 30113, 20986, 34880] (ascii ''K27.4'')
         (ascii ''Forrest'') [28040, 21270, 36947, 20986, 34880, 20998, 32423]
         forrest_stages
     @ stage_records [33041, 21330, 20013, 21151, 33021, 39044, 21518] (ascii ''I63'')
         (ascii ''mRS'') [31070, 32463, 21151, 33021, 35780, 20998]
         mrs_stages"
    by (rule d6_data_blocks)
  show "map fst (items nyha_diseases) =
       [[24515, 21147, 34928, 31469], [39118, 28287, 24615, 24515, 33039, 30149],
        [25193, 24352, 22411, 24515, 32908, 30149]]"
    by (rule nyha_items)
  have sel: "records_with (ascii ''stagingSystem'') (PStr (ascii ''NYHA''))
          (records_with (ascii ''disease'') (PStr [24515, 21147, 34928, 31469]) d6_data) =
       stage_records [24515, 21147, 34928, 31469] (ascii ''I50'') (ascii ''NYHA'')
         [24515, 21151, 33021, 20998, 32423] nyha_stages"
    by (simp add: nyha_records records_with_system_stage_records)
  show "map stage_labels
        (records_with (ascii ''stagingSystem'') (PStr (ascii ''NYHA''))
          (records_with (ascii ''disease'') (PStr [24515, 21147, 34928, 31469]) d6_data)) =
       [[Some (PStr (ascii ''I'' @ [32423]))], [Some (PStr (ascii ''II'' @ [32423]))],
        [Some (PStr (ascii ''III'' @ [32423]))], [Some (PStr (ascii ''IV'' @ [32423]))]]"
    unfolding sel by (rule nyha_labels)
  show "fields (ascii ''icdCode'')
        (records_with (ascii ''stagingSystem'') (PStr (ascii ''NYHA''))
          (records_with (ascii ''disease'') (PStr [24515, 21147, 34928, 31469]) d6_data)) =
       [Some (PStr (ascii ''I50'')), Some (PStr (ascii ''I50'')), Some (PStr (ascii ''I50'')),
        Some (PStr (ascii ''I50''))]"
    unfolding sel by (simp add: fields_icd_stage_records nyha_stages_def)
qed

text \<open>
  Claim C9. In the staging output the \<^verbatim>\<open>icdCode\<close> is a function of the \<^verbatim>\<open>disease\<close>: every
  record has both fields, and two records with equal \<^verbatim>\<open>disease\<close> fields have equal
  \<^verbatim>\<open>icdCode\<close> fields, also across staging systems.
\<close>

theorem staging_icdCode_determined_by_disease:
  "\<forall>r1\<in>set d6_data. \<forall>r2\<in>set d6_data.
     (\<exists>d i. field r1 (ascii ''disease'') = Some (PStr d) \<and> field r1 (ascii ''icdCode'') = Some (PStr i))
     \<and> (field r1 (ascii ''disease'') = field r2 (ascii ''disease'')
          \<longrightarrow> field r1 (ascii ''icdCode'') = field r2 (ascii ''icdCode''))"
proof (intro ballI conjI impI)
  fix r1 r2
  assume r1: "r1 \<in> set d6_data" and r2: "r2 \<in> set d6_data"
  from r1 d6_data_codes obtain p where p: "p \<in> set d6_disease_codes"
    "field r1 (ascii ''disease'') = Some (PStr (fst p))"
    "field r1 (ascii ''icdCode'') = Some (PStr (snd p))"
    by blast
  from r2 d6_data_codes obtain q where q: "q \<in> set d6_disease_codes"
    "field r2 (ascii ''disease'') = Some (PStr (fst q))"
    "field r2 (ascii ''icdCode'') = Some (PStr (snd q))"
    by blast
  from p show "\<exists>d i. field r1 (ascii ''disease'') = Some (PStr d)
      \<and> field r1 (ascii ''icdCode'') = Some (PStr i)"
    by blast
  assume "field r1 (ascii ''disease'') = field r2 (ascii ''disease'')"
  with p q have "fst p = fst q" by simp
  with p q have "snd p = snd q" by (intro d6_disease_codes_functional)
  with p q show "field r1 (ascii ''icdCode'') = field r2 (ascii ''icdCode'')" by simp
qed

text \<open>
  The two hypertension records at indices 97 and 100 belong to different staging systems
  (grading and risk stratification) and share the disease, hence the code.
\<close>

theorem staging_icdCode_determined_by_disease_witness:
  "d6_data ! 97 \<in> set d6_data \<and> d6_data ! 100 \<in> set d6_data
   \<and> field (d6_data ! 97) (ascii ''stagingSystem'') = Some (PStr [20998, 32423])
   \<and> field (d6_data ! 100) (ascii ''stagingSystem'') = Some (PStr [21361, 38505, 20998,
       23618])
   \<and> field (d6_data ! 97) (ascii ''disease'') = field (d6_data ! 100) (ascii ''disease'')
   \<and> field (d6_data ! 97) (ascii ''icdCode'') = field (d6_data ! 100) (ascii ''icdCode'')"
proof -
  have m1: "d6_data ! 97 \<in> set d6_data" and m2: "d6_data ! 100 \<in> set d6_data"
    by (simp_all add: d6_count)
  have eq: "field (d6_data ! 97) (ascii ''disease'') = field (d6_data ! 100) (ascii ''disease'')"
    by (simp add: bp_records field_staging_entry)
  from staging_icdCode_determined_by_disease [THEN bspec, OF m1, THEN bspec, OF m2] eq
  have "field (d6_data ! 97) (ascii ''icdCode'') = field (d6_data ! 100) (ascii ''icdCode'')"
    by blast
  with m1 m2 eq show ?thesis
    by (simp add: bp_records field_staging_entry)
qed

subsection \<open>The department mapping generator\<close>

text \<open>
  Claim C5. Any two distinct records of the department output have different
  \<^verbatim>\<open>departmentCode\<close> fields (and each record has one).
\<close>

theorem department_codes_unique:
  assumes "i < length d8_data" and "j < length d8_data" and "i \<noteq> j"
  shows "field (d8_data ! i) (ascii ''departmentCode'') \<noteq> field (d8_data ! j) (ascii ''departmentCode'')
     \<and> (\<exists>code. field (d8_data ! i) (ascii ''departmentCode'') = Some (PStr code))"
proof
  let ?cs = "fields (ascii ''departmentCode'') d8_data"
  have len: "length ?cs = length d8_data" by (simp add: fields_def)
  have nth: "\<And>k. k < length d8_data \<Longrightarrow> ?cs ! k = field (d8_data ! k) (ascii ''departmentCode'')"
    by (simp add: fields_def)
  from assms len d8_codes_distinct have "?cs ! i \<noteq> ?cs ! j"
    by (simp add: nth_eq_iff_index_eq)
  with assms nth show "field (d8_data ! i) (ascii ''departmentCode'')
      \<noteq> field (d8_data ! j) (ascii ''departmentCode'')"
    by simp
  have "\<forall>c\<in>set ?cs. \<exists>code. c = Some (PStr code)"
    unfolding d8_department_codes by (auto simp only: set_map)
  moreover from assms(1) len have "?cs ! i \<in> set ?cs" by (simp only: nth_mem)
  ultimately have "\<exists>code. ?cs ! i = Some (PStr code)" by blast
  with assms nth show "\<exists>code. field (d8_data ! i) (ascii ''departmentCode'') = Some (PStr code)"
    by simp
qed

text \<open>
  The first and the last department (\<^verbatim>\<open>ICU\<close> and \<^verbatim>\<open>LAB\<close>).
\<close>

theorem department_codes_unique_witness:
  "(0::nat) < length d8_data \<and> (31::nat) < length d8_data \<and> (0::nat) \<noteq> 31
   \<and> field (d8_data ! 0) (ascii ''departmentCode'') \<noteq> field (d8_data ! 31) (ascii ''departmentCode'')"
proof -
  have a: "(0::nat) < length d8_data" and b: "(31::nat) < length d8_data" and c: "(0::nat) \<noteq> 31"
    by (simp_all add: length_d8_data)
  from department_codes_unique [OF a b c] a b c show ?thesis by simp
qed

text \<open>
  Claim C8. Every department record has an integer \<^verbatim>\<open>bedCount\<close> that is not negative, and
  a record whose \<^verbatim>\<open>bedCount\<close> is 0 has an empty \<^verbatim>\<open>wards\<close> list.
\<close>

theorem department_bed_counts:
  "\<forall>r\<in>set d8_data. \<exists>n ws. field r (ascii ''bedCount'') = Some (PInt n)
      \<and> field r (ascii ''wards'') = Some (PList ws) \<and> 0 \<le> n \<and> (n = 0 \<longrightarrow> ws = [])"
  unfolding d8_data_def
    dept_ICU_def dept_ER_def dept_CARD_def dept_RESP_def dept_GASTRO_def dept_NEPHRO_def
    dept_ENDO_def dept_HEMA_def dept_RHEUM_def dept_NEURO_def dept_INFECT_def dept_GSURG_def
    dept_ORTHO_def dept_CTS_def dept_URO_def dept_NSURG_def dept_PLAST_def dept_OBGYN_def
    dept_PED_def dept_OPHTH_def dept_ENT_def dept_ORAL_def dept_DERM_def dept_TCM_def
    dept_REHAB_def dept_ONCO_def dept_GERI_def dept_PSYCH_def dept_ANESTH_def dept_PATH_def
    dept_RADI_def dept_LAB_def
  by (simp add: py_dict_distinct ascii_eq_iff)

text \<open>
  The pathology department has no beds and no wards.
\<close>

theorem department_bed_counts_witness:
  "dept_PATH \<in> set d8_data \<and> field dept_PATH (ascii ''bedCount'') = Some (PInt 0)
   \<and> field dept_PATH (ascii ''wards'') = Some (PList [])"
proof -
  have m: "dept_PATH \<in> set d8_data" by (simp add: d8_data_def)
  have b: "field dept_PATH (ascii ''bedCount'') = Some (PInt 0)"
    by (simp add: dept_PATH_def py_dict_distinct ascii_eq_iff)
  from department_bed_counts [THEN bspec, OF m] b m show ?thesis by auto
qed

subsection \<open>All three generators\<close>

text \<open>
  Claim C2. The number of records of each generator is the number of pairs that its
  literal tables define: one record per name of the 30-element disease list for the SOAP
  generator; for the staging generator the sum, over the loops of the source (each a
  disease table or a single disease, with the stage list of that loop), of the number of
  diseases times the number of stage entries, which is 191; and the 32 literal department
  records for the department generator.
\<close>

theorem record_counts:
  "(\<exists>ts. soap_templates = Inr ts \<and> length ts = length diseases)
   \<and> length diseases = 30
   \<and> length d6_data =
       length (items tnm_diseases) * length tnm_stages
     + length (items nyha_diseases) * length nyha_stages
     + length (items ckd_diseases) * length ckd_stages
     + length gold_stages
     + length (items child_pugh_diseases) * length child_pugh_stages
     + length bp_grade_stages
     + length bp_risk_stages
     + length retinopathy_stages
     + length nephropathy_stages
     + length neuropathy_stages
     + length burn_stages
     + length (items ao_fractures) * length ao_stages
     + length ecog_stages
     + length gcs_stages
     + length asa_stages
     + length forrest_stages
     + length mrs_stages
   \<and> length d6_data = 191
   \<and> length d8_data = 32"
  by (simp add: soap_templates_eq length_diseases length_d8_data d6_count [symmetric]
      length_d6_data [symmetric])

text \<open>
  Claim C3. Each generator is deterministic: two runs that succeed, from any two worlds,
  leave the same document in the output file, a list of records. In particular a second
  run after a first one leaves the file's content unchanged.
\<close>

theorem generators_deterministic:
  assumes "(g, path) \<in> set generators" and "g w1 = Inr w1'" and "g w2 = Inr w2'"
  shows "files w1' path = files w2' path \<and> (\<exists>records. files w1' path = Some (PList records))"
proof -
  from assms(1) consider
      "g = generate_d2_soap_templates" "path = d2_output_path"
    | "g = generate_d6_disease_staging" "path = d6_output_path"
    | "g = generate_d8_department_mapping" "path = d8_output_path"
    by (auto simp: generators_def)
  then show ?thesis
  proof cases
    case 1
    with assms(2,3) show ?thesis by (simp add: generate_d2_Inr)
  next
    case 2
    with assms(2,3) show ?thesis by (simp add: generate_d6_Inr)
  next
    case 3
    with assms(2,3) show ?thesis by (simp add: generate_d8_Inr)
  qed
qed

text \<open>
  A run of the staging generator in the fresh world, followed by a second run in the
  world that the first one left.
\<close>

theorem generators_deterministic_witness:
  "(generate_d6_disease_staging, d6_output_path) \<in> set generators
   \<and> generate_d6_disease_staging fresh_world = Inr (projr (generate_d6_disease_staging fresh_world))
   \<and> generate_d6_disease_staging (projr (generate_d6_disease_staging fresh_world)) =
       Inr (projr (generate_d6_disease_staging (projr (generate_d6_disease_staging fresh_world))))
   \<and> files (projr (generate_d6_disease_staging fresh_world)) d6_output_path =
       files (projr (generate_d6_disease_staging (projr (generate_d6_disease_staging fresh_world))))
         d6_output_path"
proof -
  let ?w1 = "projr (generate_d6_disease_staging fresh_world)"
  let ?w2 = "projr (generate_d6_disease_staging ?w1)"
  have g: "(generate_d6_disease_staging, d6_output_path) \<in> set generators"
    by (simp add: generators_def)
  have "can_open fresh_world d6_output_path" by (simp add: fresh_world_def)
  then have r1: "generate_d6_disease_staging fresh_world = Inr ?w1"
    by (intro Inr_projr generate_d6_succeeds)
  then have "can_open ?w1 d6_output_path"
    by (simp add: generate_d6_Inr fresh_world_def)
  then have r2: "generate_d6_disease_staging ?w1 = Inr ?w2"
    by (intro Inr_projr generate_d6_succeeds)
  from generators_deterministic [OF g r1 r2] g r1 r2 show ?thesis by blast
qed


end
